theory Spec2Isabelle
  imports Main
begin

section \<open>Data model\<close>

text \<open>
  A row of the table \<^verbatim>\<open>tasks\<close> created by \<^verbatim>\<open>init_db\<close> (app/main.py, lines 51-58),
  which is also the dictionary \<^verbatim>\<open>dict(row)\<close> that the handlers return. The columns
  carry the suffix \<^verbatim>\<open>_col\<close>: \<^verbatim>\<open>id\<close> and \<^verbatim>\<open>done\<close> are taken in Isabelle.
  \<^verbatim>\<open>done\<close> is the integer 0 or 1, as the column and the JSON have it.
\<close>

record task =
  id_col :: int
  title_col :: string
  done_col :: int
  created_at_col :: string

text \<open>
  The table together with its entry in \<^verbatim>\<open>sqlite_sequence\<close>: \<^verbatim>\<open>AUTOINCREMENT\<close> keeps
  there the largest rowid that was ever handed out, counting from 0. Rows are kept in
  insertion order.
\<close>

record database =
  rows :: "task list"
  seq :: nat

text \<open>
  The request model \<^verbatim>\<open>TaskCreate\<close> (lines 40-41). A character of a string stands for a
  code point, which is what the length bounds of the title count.
\<close>

record TaskCreate =
  title :: string

text \<open>
  The exceptions that the modelled code can raise: the three of \<^verbatim>\<open>sqlite3\<close> and of
  binding a parameter, \<^verbatim>\<open>TypeError\<close> of \<^verbatim>\<open>dict(None)\<close>, and the two that the framework
  turns into a response.
\<close>

datatype exn =
  OperationalError
| OverflowError
| ProgrammingError
| TypeError
| HTTPException int string
| RequestValidationError

text \<open>
  Everything the process can touch. \<^verbatim>\<open>db\<close> is the committed content of the database
  file (\<open>None\<close>: the table does not exist yet). \<^verbatim>\<open>cons\<close> holds the connections that were
  opened and not closed, each with its own view of the database, which includes the
  changes it has not committed. \<^verbatim>\<open>faults\<close> is the environment's script for the calls
  into the store (\<^verbatim>\<open>connect\<close>, \<^verbatim>\<open>execute\<close>, \<^verbatim>\<open>commit\<close>): each call takes the head, and
  \<open>True\<close> makes it raise \<^verbatim>\<open>sqlite3.OperationalError\<close>; the empty script is a store that
  is reachable. \<^verbatim>\<open>now\<close> is what \<^verbatim>\<open>datetime('now')\<close> yields, \<^verbatim>\<open>ticks\<close> the readings that
  \<^verbatim>\<open>time.perf_counter()\<close> will return, in microseconds (the floats of the source are
  not modelled), and \<^verbatim>\<open>clock\<close> the last reading. \<^verbatim>\<open>REQ_COUNT\<close>, \<^verbatim>\<open>REQ_LAT\<close> and \<^verbatim>\<open>log\<close>
  are the process-wide counter, histogram (the observations of each label, in order)
  and logger of lines 33-36.
\<close>

record world =
  db :: "database option"
  cons :: "(nat \<times> database option) list"
  con_ctr :: nat
  faults :: "bool list"
  now :: string
  ticks :: "int list"
  clock :: int
  REQ_COUNT :: "string \<times> string \<times> string \<Rightarrow> nat"
  REQ_LAT :: "string \<times> string \<Rightarrow> int list"
  log :: "string list"

section \<open>Effects: state and exceptions\<close>

type_synonym 'a io = "world \<Rightarrow> (exn + 'a) \<times> world"

definition ret :: "'a \<Rightarrow> 'a io" where
  "ret x w = (Inr x, w)"

definition raise :: "exn \<Rightarrow> 'a io" where
  "raise e w = (Inl e, w)"

definition bind_io :: "'a io \<Rightarrow> ('a \<Rightarrow> 'b io) \<Rightarrow> 'b io" where
  "bind_io m f w = (case m w of (Inl e, w') \<Rightarrow> (Inl e, w') | (Inr x, w') \<Rightarrow> f x w')"

section \<open>The store, as the \<^verbatim>\<open>sqlite3\<close> module presents it\<close>

definition store_call :: "unit io" where
  "store_call w =
     (case faults w of
        [] \<Rightarrow> (Inr (), w)
      | f # fs \<Rightarrow> ((if f then Inl OperationalError else Inr ()), w\<lparr>faults := fs\<rparr>))"

text \<open>\<^verbatim>\<open>connect()\<close>, lines 43-47: a fresh handle, whose view starts at the committed state.\<close>

definition connect :: "nat io" where
  "connect =
     bind_io store_call (\<lambda>_ w.
       (Inr (con_ctr w),
        w\<lparr>cons := (con_ctr w, db w) # cons w, con_ctr := con_ctr w + 1\<rparr>))"

text \<open>The six statements that the source hands to \<^verbatim>\<open>con.execute\<close>, with their parameters.\<close>

datatype sql =
  CREATE_TABLE_IF_NOT_EXISTS_tasks
| SELECT_1
| SELECT_tasks_ORDER_BY_id_DESC
| INSERT_INTO_tasks string int
| SELECT_tasks_WHERE_id "int option"
| UPDATE_tasks_SET_done_1_WHERE_id int

record cursor =
  result :: "task list"
  lastrowid :: "int option"
  rowcount :: int

definition fetchall :: "cursor \<Rightarrow> task list" where
  "fetchall cur = result cur"

definition fetchone :: "cursor \<Rightarrow> task option" where
  "fetchone cur = (case result cur of [] \<Rightarrow> None | r # _ \<Rightarrow> Some r)"

text \<open>An SQLite INTEGER is a signed 64-bit value.\<close>

definition MAX_ROWID :: int where
  "MAX_ROWID = 9223372036854775807"

definition fits_int64 :: "int \<Rightarrow> bool" where
  "fits_int64 k = (- MAX_ROWID - 1 \<le> k \<and> k \<le> MAX_ROWID)"

text \<open>
  Binding a Python integer outside the 64-bit range raises \<^verbatim>\<open>OverflowError\<close> before the
  statement runs.
\<close>

fun bindable :: "sql \<Rightarrow> bool" where
  "bindable (INSERT_INTO_tasks t d) = fits_int64 d"
| "bindable (SELECT_tasks_WHERE_id (Some k)) = fits_int64 k"
| "bindable (UPDATE_tasks_SET_done_1_WHERE_id k) = fits_int64 k"
| "bindable _ = True"

text \<open>
  The rowid that \<^verbatim>\<open>INTEGER PRIMARY KEY AUTOINCREMENT\<close> assigns: one more than the largest
  rowid that the table holds or has ever held.
\<close>

definition largest_rowid :: "database \<Rightarrow> int" where
  "largest_rowid d = fold max (map id_col (rows d)) (int (seq d))"

definition empty_cursor :: cursor where
  "empty_cursor = \<lparr>result = [], lastrowid = None, rowcount = - 1\<rparr>"

text \<open>
  What a statement does to the view of a connection, and the cursor it leaves. A statement
  on the table fails while the table does not exist; an insertion fails (SQLITE_FULL) once
  the largest rowid has been used. \<^verbatim>\<open>ORDER BY id DESC\<close> is a sort on the key.
\<close>

fun run_sql :: "string \<Rightarrow> sql \<Rightarrow> database option \<Rightarrow> exn + (cursor \<times> database option)" where
  "run_sql ts CREATE_TABLE_IF_NOT_EXISTS_tasks None =
     Inr (empty_cursor, Some \<lparr>rows = [], seq = 0\<rparr>)"
| "run_sql ts CREATE_TABLE_IF_NOT_EXISTS_tasks (Some d) = Inr (empty_cursor, Some d)"
| "run_sql ts SELECT_1 v = Inr (empty_cursor, v)"
| "run_sql ts _ None = Inl OperationalError"
| "run_sql ts SELECT_tasks_ORDER_BY_id_DESC (Some d) =
     Inr (empty_cursor\<lparr>result := rev (sort_key id_col (rows d))\<rparr>, Some d)"
| "run_sql ts (INSERT_INTO_tasks t dn) (Some d) =
     (if largest_rowid d \<ge> MAX_ROWID then Inl OperationalError
      else
        let k = largest_rowid d + 1;
            r = \<lparr>id_col = k, title_col = t, done_col = dn, created_at_col = ts\<rparr>
        in Inr (empty_cursor\<lparr>lastrowid := Some k, rowcount := 1\<rparr>,
                Some \<lparr>rows = rows d @ [r], seq = nat k\<rparr>))"
| "run_sql ts (SELECT_tasks_WHERE_id None) (Some d) = Inr (empty_cursor, Some d)"
| "run_sql ts (SELECT_tasks_WHERE_id (Some k)) (Some d) =
     Inr (empty_cursor\<lparr>result := filter (\<lambda>r. id_col r = k) (rows d)\<rparr>, Some d)"
| "run_sql ts (UPDATE_tasks_SET_done_1_WHERE_id k) (Some d) =
     Inr (empty_cursor\<lparr>rowcount := int (length (filter (\<lambda>r. id_col r = k) (rows d)))\<rparr>,
          Some (d\<lparr>rows := map (\<lambda>r. if id_col r = k then r\<lparr>done_col := 1\<rparr> else r) (rows d)\<rparr>))"

definition set_view ::
  "nat \<Rightarrow> database option \<Rightarrow> (nat \<times> database option) list \<Rightarrow> (nat \<times> database option) list" where
  "set_view con v cs = map (\<lambda>(h, u). if h = con then (h, v) else (h, u)) cs"

text \<open>
  \<^verbatim>\<open>con.execute(sql, params)\<close>: on a closed handle it raises \<^verbatim>\<open>ProgrammingError\<close>;
  otherwise the parameters are bound, the store is called and the statement runs on the
  connection's view. A statement that fails leaves the view as it was.
\<close>

definition execute :: "nat \<Rightarrow> sql \<Rightarrow> cursor io" where
  "execute con s w =
     (case map_of (cons w) con of
        None \<Rightarrow> (Inl ProgrammingError, w)
      | Some v \<Rightarrow>
          if \<not> bindable s then (Inl OverflowError, w)
          else
            bind_io store_call (\<lambda>_ w'.
              case run_sql (now w') s v of
                Inl e \<Rightarrow> (Inl e, w')
              | Inr (cur, v') \<Rightarrow> (Inr cur, w'\<lparr>cons := set_view con v' (cons w')\<rparr>)) w)"

text \<open>
  \<^verbatim>\<open>con.commit()\<close>: the view of the connection becomes the committed state. The INSERT
  and the UPDATE of the handlers open a transaction, so that they reach the committed
  state here and not before. The CREATE TABLE of \<^verbatim>\<open>init_db\<close> is treated alike, although
  SQLite makes it durable as it runs: \<^verbatim>\<open>init_db\<close> commits right after it, and the two differ
  only where that commit fails.
\<close>

definition commit :: "nat \<Rightarrow> unit io" where
  "commit con w =
     (case map_of (cons w) con of
        None \<Rightarrow> (Inl ProgrammingError, w)
      | Some v \<Rightarrow> bind_io store_call (\<lambda>_ w'. (Inr (), w'\<lparr>db := v\<rparr>)) w)"

text \<open>
  \<^verbatim>\<open>con.close()\<close>: the handle is released; what it had not committed is lost.
\<close>

definition close :: "nat \<Rightarrow> unit io" where
  "close con w = (Inr (), w\<lparr>cons := filter (\<lambda>(h, v). h \<noteq> con) (cons w)\<rparr>)"

text \<open>\<^verbatim>\<open>dict(row)\<close>: \<^verbatim>\<open>dict(None)\<close> raises \<^verbatim>\<open>TypeError\<close>.\<close>

definition dict :: "task option \<Rightarrow> task io" where
  "dict row = (case row of None \<Rightarrow> raise TypeError | Some r \<Rightarrow> ret r)"

section \<open>Startup and the resource handlers\<close>

text \<open>What a handler returns, and what the framework puts into a response.\<close>

datatype content =
  Dict "(string \<times> string) list"
| Task_dict task
| Task_dicts "task list"
| Detail string
| Validation_detail
| Exposition "string \<times> string \<times> string \<Rightarrow> nat" "string \<times> string \<Rightarrow> int list"
| Documentation
| Plain_text string

text \<open>\<^verbatim>\<open>init_db\<close>, lines 49-60, which \<^verbatim>\<open>startup\<close> (lines 62-64) calls.\<close>

definition init_db :: "unit io" where
  "init_db =
     bind_io connect (\<lambda>con.
     bind_io (execute con CREATE_TABLE_IF_NOT_EXISTS_tasks) (\<lambda>_.
     bind_io (commit con) (\<lambda>_.
     close con)))"

definition startup :: "unit io" where
  "startup = init_db"

text \<open>\<^verbatim>\<open>health\<close>, lines 83-88.\<close>

definition health :: "content io" where
  "health =
     bind_io connect (\<lambda>con.
     bind_io (execute con SELECT_1) (\<lambda>_.
     bind_io (close con) (\<lambda>_.
     ret (Dict [(''status'', ''ok''), (''db'', ''ok'')]))))"

text \<open>\<^verbatim>\<open>list_tasks\<close>, lines 90-95.\<close>

definition list_tasks :: "content io" where
  "list_tasks =
     bind_io connect (\<lambda>con.
     bind_io (execute con SELECT_tasks_ORDER_BY_id_DESC) (\<lambda>cur.
     let rows = fetchall cur in
     bind_io (close con) (\<lambda>_.
     ret (Task_dicts rows))))"

text \<open>\<^verbatim>\<open>create_task\<close>, lines 97-107.\<close>

definition create_task :: "TaskCreate \<Rightarrow> content io" where
  "create_task payload =
     bind_io connect (\<lambda>con.
     bind_io (execute con (INSERT_INTO_tasks (title payload) 0)) (\<lambda>cur.
     bind_io (commit con) (\<lambda>_.
     bind_io (execute con (SELECT_tasks_WHERE_id (lastrowid cur))) (\<lambda>cur2.
     let row = fetchone cur2 in
     bind_io (close con) (\<lambda>_.
     bind_io (dict row) (\<lambda>r.
     ret (Task_dict r)))))))"

text \<open>\<^verbatim>\<open>mark_done\<close>, lines 109-119.\<close>

definition mark_done :: "int \<Rightarrow> content io" where
  "mark_done task_id =
     bind_io connect (\<lambda>con.
     bind_io (execute con (UPDATE_tasks_SET_done_1_WHERE_id task_id)) (\<lambda>cur.
     bind_io (commit con) (\<lambda>_.
     if rowcount cur = 0 then
       bind_io (close con) (\<lambda>_.
       raise (HTTPException 404 ''Task not found''))
     else
       bind_io (execute con (SELECT_tasks_WHERE_id (Some task_id))) (\<lambda>cur2.
       let row = fetchone cur2 in
       bind_io (close con) (\<lambda>_.
       bind_io (dict row) (\<lambda>r.
       ret (Task_dict r)))))))"

text \<open>
  \<^verbatim>\<open>metrics\<close>, lines 121-123: the rendering of the registry, kept here as the registry's
  content.
\<close>

definition metrics :: "content io" where
  "metrics w = (Inr (Exposition (REQ_COUNT w) (REQ_LAT w)), w)"

section \<open>The observability middleware\<close>

text \<open>
  A JSON value, as the body of a request carries it (a number is an integer here). The
  body of a request is \<open>None\<close> where the request has none.
\<close>

datatype json_value =
  JNull
| JBool bool
| JNumber int
| JString string
| JArray "json_value list"
| JObject "(string \<times> json_value) list"

record request =
  http_method :: string
  url_path :: string
  json :: "json_value option"

record response =
  status_code :: int
  body :: content

text \<open>\<^verbatim>\<open>str\<close> of an integer, for the status label and the log line.\<close>

fun str_nat :: "nat \<Rightarrow> string" where
  "str_nat n =
     (if n < 10 then [''0123456789'' ! n]
      else str_nat (n div 10) @ [''0123456789'' ! (n mod 10)])"

declare str_nat.simps [simp del]

definition str :: "int \<Rightarrow> string" where
  "str i = (if i < 0 then CHR ''-'' # str_nat (nat (- i)) else str_nat (nat i))"

text \<open>
  \<^verbatim>\<open>int(duration*1000)\<close> for a duration given in microseconds: milliseconds, truncated
  towards zero. The source computes it in floating point, where rounding can make the
  last millisecond differ; only the text of the log line shows the value.
\<close>

definition duration_ms :: "int \<Rightarrow> int" where
  "duration_ms d = (if 0 \<le> d then d div 1000 else - ((- d) div 1000))"

definition perf_counter :: "world \<Rightarrow> int \<times> world" where
  "perf_counter w =
     (case ticks w of
        [] \<Rightarrow> (clock w, w)
      | t # ts \<Rightarrow> (t, w\<lparr>ticks := ts, clock := t\<rparr>))"

definition inc :: "string \<times> string \<times> string \<Rightarrow> world \<Rightarrow> world" where
  "inc labels w = w\<lparr>REQ_COUNT := (REQ_COUNT w)(labels := REQ_COUNT w labels + 1)\<rparr>"

definition observe :: "string \<times> string \<Rightarrow> int \<Rightarrow> world \<Rightarrow> world" where
  "observe labels d w = w\<lparr>REQ_LAT := (REQ_LAT w)(labels := REQ_LAT w labels @ [d])\<rparr>"

definition info :: "string \<Rightarrow> world \<Rightarrow> world" where
  "info line w = w\<lparr>log := log w @ [line]\<rparr>"

text \<open>The line that the f-strings of lines 75 and 80 build.\<close>

definition log_line :: "request \<Rightarrow> string \<Rightarrow> int \<Rightarrow> string" where
  "log_line request status d =
     ''{\"event\":\"request\",\"method\":\"'' @ http_method request @
     ''\",\"path\":\"'' @ url_path request @
     ''\",\"status\":'' @ status @
     '',\"duration_ms\":'' @ str (duration_ms d) @ ''}''"

text \<open>
  \<^verbatim>\<open>observability_mw\<close>, lines 66-81. \<^verbatim>\<open>call_next\<close> is the rest of the application; what it
  raises is caught by \<^verbatim>\<open>except Exception\<close> and raised again.
\<close>

definition observability_mw :: "request \<Rightarrow> (request \<Rightarrow> response io) \<Rightarrow> response io" where
  "observability_mw request call_next w =
     (let (start, w) = perf_counter w in
      case call_next request w of
        (Inl e, w) \<Rightarrow>
          let (t, w) = perf_counter w;
              duration = t - start;
              w = inc (http_method request, url_path request, ''500'') w;
              w = observe (http_method request, url_path request) duration w;
              w = info (log_line request ''500'' duration) w
          in (Inl e, w)
      | (Inr response, w) \<Rightarrow>
          let (t, w) = perf_counter w;
              duration = t - start;
              w = inc (http_method request, url_path request, str (status_code response)) w;
              w = observe (http_method request, url_path request) duration w;
              w = info (log_line request (str (status_code response)) duration) w
          in (Inr response, w))"

section \<open>The application object and the framework around the handlers\<close>

text \<open>
  The framework is not part of the repository. It is modelled as far as the source relies
  on it: an application object collects routes, middleware and startup hooks; a request
  is matched against the routes by method and path; the route validates the parameters
  of its handler, calls it and wraps the result with the route's status code; an
  \<^verbatim>\<open>HTTPException\<close> and a validation error become a response, any other exception leaves
  the middleware stack and ends as status 500.
\<close>

datatype endpoint = Health | List_tasks | Create_task | Mark_done | Metrics | Docs

datatype middleware = Observability_mw | OpenTelemetry

datatype hook = Startup

record route =
  route_method :: string
  route_path :: string
  route_status :: int
  endpoint :: endpoint

record fastapi =
  app_title :: string
  routes :: "route list"
  user_middleware :: "middleware list"
  on_startup :: "hook list"

text \<open>A fresh application object serves only the framework's documentation pages.\<close>

definition FastAPI :: "string \<Rightarrow> fastapi" where
  "FastAPI t =
     \<lparr>app_title = t,
      routes = map (\<lambda>p. \<lparr>route_method = ''GET'', route_path = p, route_status = 200,
                          endpoint = Docs\<rparr>)
                 [''/openapi.json'', ''/docs'', ''/docs/oauth2-redirect'', ''/redoc''],
      user_middleware = [],
      on_startup = []\<rparr>"

text \<open>The decorators: each registers its function on the object it is called on.\<close>

definition on_event :: "hook \<Rightarrow> fastapi \<Rightarrow> fastapi" where
  "on_event h app = app\<lparr>on_startup := on_startup app @ [h]\<rparr>"

definition add_middleware :: "middleware \<Rightarrow> fastapi \<Rightarrow> fastapi" where
  "add_middleware m app = app\<lparr>user_middleware := m # user_middleware app\<rparr>"

definition add_api_route :: "string \<Rightarrow> string \<Rightarrow> int \<Rightarrow> endpoint \<Rightarrow> fastapi \<Rightarrow> fastapi" where
  "add_api_route m p st e app =
     app\<lparr>routes := routes app @
       [\<lparr>route_method = m, route_path = p, route_status = st, endpoint = e\<rparr>]\<rparr>"

text \<open>
  \<^verbatim>\<open>setup_tracing\<close>, lines 13-28. \<^verbatim>\<open>env\<close> is the process environment. Installing the
  tracer provider and its exporter has no effect on what a request returns; of the
  function the model keeps the gate and the instrumentation of the application.
  \<^verbatim>\<open>lower\<close> is \<^verbatim>\<open>str.lower\<close> on ASCII letters.
\<close>

definition lower :: "string \<Rightarrow> string" where
  "lower s = map (\<lambda>c. if 65 \<le> (of_char c :: nat) \<and> (of_char c :: nat) \<le> 90
                       then char_of ((of_char c :: nat) + 32) else c) s"

definition getenv :: "(string \<Rightarrow> string option) \<Rightarrow> string \<Rightarrow> string \<Rightarrow> string" where
  "getenv env name dflt = (case env name of None \<Rightarrow> dflt | Some v \<Rightarrow> v)"

definition setup_tracing :: "(string \<Rightarrow> string option) \<Rightarrow> fastapi \<Rightarrow> fastapi" where
  "setup_tracing env app =
     (if lower (getenv env ''OTEL_TRACING_ENABLED'' ''true'') \<noteq> ''true'' then app
      else add_middleware OpenTelemetry app)"

definition APP_NAME :: string where
  "APP_NAME = ''devops-fastapi''"

text \<open>
  The object that line 38 creates, after the decorators of lines 62-123 have run on it.
\<close>

definition app_38 :: fastapi where
  "app_38 =
     (let app = FastAPI APP_NAME;
          app = on_event Startup app;
          app = add_middleware Observability_mw app;
          app = add_api_route ''GET'' ''/health'' 200 Health app;
          app = add_api_route ''GET'' ''/tasks'' 200 List_tasks app;
          app = add_api_route ''POST'' ''/tasks'' 201 Create_task app;
          app = add_api_route ''PATCH'' ''/tasks/{task_id}/done'' 200 Mark_done app;
          app = add_api_route ''GET'' ''/metrics'' 200 Metrics app
      in app)"

text \<open>
  The module as a whole: after the decorators, line 124 binds the name \<^verbatim>\<open>app\<close> to a new
  object and line 125 instruments that one. \<^verbatim>\<open>app\<close> is what \<^verbatim>\<open>from app.main import app\<close>
  yields.
\<close>

definition app :: "(string \<Rightarrow> string option) \<Rightarrow> fastapi" where
  "app env =
     (let app = app_38;
          app = FastAPI ''FastAPI'';
          app = setup_tracing env app
      in app)"

subsection \<open>Routing\<close>

fun split :: "char \<Rightarrow> string \<Rightarrow> string list" where
  "split c [] = [[]]"
| "split c (x # xs) =
     (if x = c then [] # split c xs
      else case split c xs of [] \<Rightarrow> [[x]] | y # ys \<Rightarrow> (x # y) # ys)"

text \<open>A path parameter \<^verbatim>\<open>{name}\<close> of a route matches any non-empty segment.\<close>

definition param_name :: "string \<Rightarrow> string option" where
  "param_name s =
     (if 2 \<le> length s \<and> hd s = CHR ''{'' \<and> last s = CHR ''}'' then Some (butlast (tl s))
      else None)"

fun match_segments :: "string list \<Rightarrow> string list \<Rightarrow> (string \<times> string) list option" where
  "match_segments [] [] = Some []"
| "match_segments (t # ts) (s # ss) =
     (case param_name t of
        Some name \<Rightarrow>
          if s = [] then None
          else map_option (\<lambda>ps. (name, s) # ps) (match_segments ts ss)
      | None \<Rightarrow> if t = s then match_segments ts ss else None)"
| "match_segments _ _ = None"

definition match_path :: "route \<Rightarrow> request \<Rightarrow> (string \<times> string) list option" where
  "match_path r req =
     match_segments (split CHR ''/'' (route_path r)) (split CHR ''/'' (url_path req))"

datatype resolution = Full route "(string \<times> string) list" | Partial | No_match

text \<open>
  The first route that matches path and method handles the request; a route that matches
  the path only makes the answer 405 instead of 404. The router's redirect between a path
  and the same path with a slash at its end is left out; it applies only where a route
  matches the other path.
\<close>

fun resolve :: "route list \<Rightarrow> request \<Rightarrow> resolution" where
  "resolve [] req = No_match"
| "resolve (r # rs) req =
     (case match_path r req of
        None \<Rightarrow> resolve rs req
      | Some ps \<Rightarrow>
          if route_method r = http_method req then Full r ps
          else (case resolve rs req of No_match \<Rightarrow> Partial | res \<Rightarrow> res))"

subsection \<open>Validation of the handler's parameters\<close>

text \<open>
  \<^verbatim>\<open>payload: TaskCreate\<close> is read from the body, which has to be a JSON object. The field
  \<^verbatim>\<open>title: str = Field(min_length=1, max_length=200)\<close> asks for a member \<^verbatim>\<open>title\<close> that is a
  string (a value of another type is not turned into one) of 1 to 200 characters. Of a
  name that occurs twice the last member counts.
\<close>

definition title_member :: "json_value option \<Rightarrow> json_value option" where
  "title_member b = (case b of Some (JObject obj) \<Rightarrow> map_of (rev obj) ''title'' | _ \<Rightarrow> None)"

definition validate_TaskCreate :: "json_value option \<Rightarrow> TaskCreate option" where
  "validate_TaskCreate b =
     (case title_member b of
        Some (JString t) \<Rightarrow>
          if 1 \<le> length t \<and> length t \<le> 200 then Some \<lparr>title = t\<rparr> else None
      | _ \<Rightarrow> None)"

text \<open>
  The path parameter \<^verbatim>\<open>task_id: int\<close>: decimal digits with an optional sign; the result
  is a Python integer, which has no bound. The framework reads a few more forms as an
  integer (blanks around the digits, a fraction of zeros); the model has the plain form
  only and answers the others with 422. The theorems about \<^verbatim>\<open>mark_done\<close> take a segment
  together with the integer that it parses to, so they do not rest on what is refused.
\<close>

fun digits_value :: "string \<Rightarrow> nat \<Rightarrow> nat option" where
  "digits_value [] acc = Some acc"
| "digits_value (c # cs) acc =
     (if 48 \<le> (of_char c :: nat) \<and> (of_char c :: nat) \<le> 57
      then digits_value cs (10 * acc + ((of_char c :: nat) - 48))
      else None)"

fun int_of_str :: "string \<Rightarrow> int option" where
  "int_of_str [] = None"
| "int_of_str (c # cs) =
     (if c = CHR ''-'' then (if cs = [] then None else map_option (\<lambda>n. - int n) (digits_value cs 0))
      else if c = CHR ''+'' then (if cs = [] then None else map_option int (digits_value cs 0))
      else map_option int (digits_value (c # cs) 0))"

fun run_endpoint :: "endpoint \<Rightarrow> (string \<times> string) list \<Rightarrow> request \<Rightarrow> content io" where
  "run_endpoint Health ps req = health"
| "run_endpoint List_tasks ps req = list_tasks"
| "run_endpoint Create_task ps req =
     (case validate_TaskCreate (json req) of
        None \<Rightarrow> raise RequestValidationError
      | Some payload \<Rightarrow> create_task payload)"
| "run_endpoint Mark_done ps req =
     (case map_of ps ''task_id'' of
        None \<Rightarrow> raise RequestValidationError
      | Some s \<Rightarrow>
          (case int_of_str s of
             None \<Rightarrow> raise RequestValidationError
           | Some task_id \<Rightarrow> mark_done task_id))"
| "run_endpoint Metrics ps req = metrics"
| "run_endpoint Docs ps req = ret Documentation"

subsection \<open>The middleware stack\<close>

definition handle_route :: "route \<Rightarrow> (string \<times> string) list \<Rightarrow> request \<Rightarrow> response io" where
  "handle_route r ps req =
     bind_io (run_endpoint (endpoint r) ps req) (\<lambda>c.
     ret \<lparr>status_code = route_status r, body = c\<rparr>)"

definition router :: "fastapi \<Rightarrow> request \<Rightarrow> response io" where
  "router a req =
     (case resolve (routes a) req of
        Full r ps \<Rightarrow> handle_route r ps req
      | Partial \<Rightarrow> raise (HTTPException 405 ''Method Not Allowed'')
      | No_match \<Rightarrow> raise (HTTPException 404 ''Not Found''))"

definition exception_middleware :: "response io \<Rightarrow> response io" where
  "exception_middleware m w =
     (case m w of
        (Inl (HTTPException code detail), w') \<Rightarrow>
          (Inr \<lparr>status_code = code, body = Detail detail\<rparr>, w')
      | (Inl RequestValidationError, w') \<Rightarrow>
          (Inr \<lparr>status_code = 422, body = Validation_detail\<rparr>, w')
      | (Inl e, w') \<Rightarrow> (Inl e, w')
      | (Inr r, w') \<Rightarrow> (Inr r, w'))"

fun apply_middleware :: "middleware \<Rightarrow> (request \<Rightarrow> response io) \<Rightarrow> request \<Rightarrow> response io" where
  "apply_middleware Observability_mw call_next = (\<lambda>req. observability_mw req call_next)"
| "apply_middleware OpenTelemetry call_next = call_next"

definition middleware_stack :: "fastapi \<Rightarrow> request \<Rightarrow> response io" where
  "middleware_stack a =
     foldr apply_middleware (user_middleware a) (\<lambda>req. exception_middleware (router a req))"

text \<open>
  What a client of the served application receives: an exception that leaves the
  middleware stack is answered with status 500.
\<close>

definition serve :: "fastapi \<Rightarrow> request \<Rightarrow> world \<Rightarrow> response \<times> world" where
  "serve a req w =
     (case middleware_stack a req w of
        (Inl e, w') \<Rightarrow> (\<lparr>status_code = 500, body = Plain_text ''Internal Server Error''\<rparr>, w')
      | (Inr r, w') \<Rightarrow> (r, w'))"

fun run_hooks :: "hook list \<Rightarrow> unit io" where
  "run_hooks [] = ret ()"
| "run_hooks (Startup # hs) = bind_io startup (\<lambda>_. run_hooks hs)"

subsection \<open>Requests\<close>

text \<open>
  The requests of tests/test_api.py: \<^verbatim>\<open>client.get(path)\<close>, \<^verbatim>\<open>client.post(path, json=...)\<close>
  and \<^verbatim>\<open>client.patch(path)\<close>.
\<close>

definition client_get :: "string \<Rightarrow> request" where
  "client_get p = \<lparr>http_method = ''GET'', url_path = p, json = None\<rparr>"

definition client_post :: "string \<Rightarrow> json_value option \<Rightarrow> request" where
  "client_post p b = \<lparr>http_method = ''POST'', url_path = p, json = b\<rparr>"

definition client_patch :: "string \<Rightarrow> request" where
  "client_patch p = \<lparr>http_method = ''PATCH'', url_path = p, json = None\<rparr>"

text \<open>The path of the request that marks a task done, for the segment \<open>s\<close> as the id.\<close>

definition task_done_path :: "string \<Rightarrow> string" where
  "task_done_path s = ''/tasks/'' @ s @ ''/done''"

text \<open>A client's session: the requests are served one after the other.\<close>

fun serve_all :: "fastapi \<Rightarrow> request list \<Rightarrow> world \<Rightarrow> world" where
  "serve_all a [] w = w"
| "serve_all a (req # reqs) w = serve_all a reqs (snd (serve a req w))"

text \<open>The rows of a table; none while the table does not exist.\<close>

definition rows_of :: "database option \<Rightarrow> task list" where
  "rows_of v = (case v of None \<Rightarrow> [] | Some d \<Rightarrow> rows d)"

text \<open>The tasks that are done.\<close>

definition done_tasks :: "database option \<Rightarrow> task set" where
  "done_tasks v = {r \<in> set (rows_of v). done_col r = 1}"

text \<open>The view that the connection with handle \<open>c\<close> has of the database.\<close>

definition view :: "world \<Rightarrow> nat \<Rightarrow> database option" where
  "view w c = (case map_of (cons w) c of None \<Rightarrow> None | Some v \<Rightarrow> v)"

text \<open>The handles of the connections that are open.\<close>

definition open_handles :: "world \<Rightarrow> nat set" where
  "open_handles w = fst ` set (cons w)"

subsection \<open>Worlds to run the model on\<close>

text \<open>A process that has just started, before \<^verbatim>\<open>startup\<close>: no table, no connection.\<close>

definition new_world :: world where
  "new_world =
     \<lparr>db = None, cons = [], con_ctr = 0, faults = [], now = ''2024-01-01 00:00:00'',
      ticks = [], clock = 0, REQ_COUNT = (\<lambda>_. 0), REQ_LAT = (\<lambda>_. []), log = []\<rparr>"

text \<open>A store that holds two tasks, the first of them done.\<close>

definition two_tasks :: database where
  "two_tasks =
     \<lparr>rows = [\<lparr>id_col = 1, title_col = ''write report'', done_col = 1,
                created_at_col = ''2024-01-01 00:00:00''\<rparr>,
              \<lparr>id_col = 2, title_col = ''send report'', done_col = 0,
                created_at_col = ''2024-01-01 00:00:00''\<rparr>],
      seq = 2\<rparr>"

text \<open>A store whose second call fails.\<close>

definition faulty_world :: world where
  "faulty_world = new_world\<lparr>faults := [False, True]\<rparr>"

definition world_two_tasks :: world where
  "world_two_tasks = new_world\<lparr>db := Some two_tasks\<rparr>"

section \<open>Facts about the store\<close>

lemma filter_set_view [simp]:
  "filter (\<lambda>(h, v). h \<noteq> c) (set_view c x xs) = filter (\<lambda>(h, v). h \<noteq> c) xs"
  by (induction xs) (auto simp: set_view_def)

lemma set_view_Cons [simp]: "set_view c x ((c, u) # xs) = (c, x) # set_view c x xs"
  by (simp add: set_view_def)

lemma handles_set_view [simp]: "fst ` set (set_view c x xs) = fst ` set xs"
  by (induction xs) (auto simp: set_view_def)

lemma not_in_filter_handles [simp]: "c \<notin> fst ` set (filter (\<lambda>(h, v). h \<noteq> c) xs)"
  by (induction xs) auto

lemma store_call_ok: "faults w = [] \<Longrightarrow> store_call w = (Inr (), w)"
  by (simp add: store_call_def)

lemma connect_ok:
  "faults w = [] \<Longrightarrow>
   connect w =
     (Inr (con_ctr w), w\<lparr>cons := (con_ctr w, db w) # cons w, con_ctr := con_ctr w + 1\<rparr>)"
  by (simp add: connect_def bind_io_def store_call_def)

lemma run_sql_Inl: "run_sql ts s v = Inl e \<Longrightarrow> e = OperationalError"
  by (cases "(ts, s, v)" rule: run_sql.cases) (auto split: if_splits simp: Let_def)

text \<open>The rowid that an insertion assigns is larger than every rowid of the table.\<close>

lemma fold_max_ge: "(a::int) \<le> fold max xs a"
  by (induction xs arbitrary: a) (auto intro: order_trans [OF max.cobounded2])

lemma fold_max_mem: "(x::int) \<in> set xs \<Longrightarrow> x \<le> fold max xs a"
proof (induction xs arbitrary: a)
  case Nil
  then show ?case by simp
next
  case (Cons y ys)
  show ?case
  proof (cases "x = y")
    case True
    have "y \<le> max y a" by simp
    also have "\<dots> \<le> fold max ys (max y a)" by (rule fold_max_ge)
    finally show ?thesis using True by simp
  next
    case False
    with Cons show ?thesis by simp
  qed
qed

lemma largest_rowid_bound: "r \<in> set (rows d) \<Longrightarrow> id_col r \<le> largest_rowid d"
  by (simp add: largest_rowid_def fold_max_mem)

lemma largest_rowid_nonneg: "0 \<le> largest_rowid d"
  using fold_max_ge [of "int (seq d)" "map id_col (rows d)"] by (simp add: largest_rowid_def)

lemma largest_rowid_fresh: "filter (\<lambda>r. id_col r = largest_rowid d + 1) (rows d) = []"
  using largest_rowid_bound [of _ d] by (fastforce simp: filter_empty_conv)

lemma fold_max_above: "\<forall>x\<in>set xs. x \<le> a \<Longrightarrow> fold max xs (a::int) = a"
  by (induction xs) (auto simp: max_absorb2)

lemma largest_rowid_append:
  assumes "id_col r = largest_rowid d + 1"
  shows "largest_rowid \<lparr>rows = rows d @ [r], seq = nat (id_col r)\<rparr> = id_col r"
proof -
  have "\<forall>x\<in>set (map id_col (rows d)). x \<le> id_col r"
    using largest_rowid_bound [of _ d] assms by fastforce
  moreover have "0 \<le> id_col r"
    using largest_rowid_nonneg [of d] assms by simp
  ultimately show ?thesis
    by (simp add: largest_rowid_def fold_max_above)
qed

text \<open>What the UPDATE of \<^verbatim>\<open>mark_done\<close> does to the rows.\<close>

lemma filter_mark [simp]:
  "filter (\<lambda>r. id_col r = k) (map (\<lambda>r. if id_col r = k then r\<lparr>done_col := 1\<rparr> else r) xs) =
   map (\<lambda>r. r\<lparr>done_col := 1\<rparr>) (filter (\<lambda>r. id_col r = k) xs)"
  by (induction xs) auto

lemma mark_absent:
  "filter (\<lambda>r. id_col r = k) xs = [] \<Longrightarrow>
   map (\<lambda>r. if id_col r = k then r\<lparr>done_col := 1\<rparr> else r) xs = xs"
  by (induction xs) (auto split: if_splits)

section \<open>The handlers on a store that is reachable\<close>

text \<open>\<^verbatim>\<open>init_db\<close> creates the table where there is none and keeps the one that is there.\<close>

lemma init_db_ok:
  "faults w = [] \<Longrightarrow>
   db (snd (init_db w)) = (case db w of None \<Rightarrow> Some \<lparr>rows = [], seq = 0\<rparr> | Some d \<Rightarrow> Some d)"
  by (simp add: init_db_def bind_io_def connect_ok execute_def store_call_def commit_def
      close_def split: option.split)

lemma health_ok:
  "faults w = [] \<Longrightarrow>
   health w =
     (Inr (Dict [(''status'', ''ok''), (''db'', ''ok'')]),
      w\<lparr>cons := filter (\<lambda>(h, v). h \<noteq> con_ctr w) (cons w), con_ctr := con_ctr w + 1\<rparr>)"
  by (simp add: health_def bind_io_def connect_ok execute_def store_call_def close_def ret_def)

lemma list_tasks_ok:
  assumes "faults w = []" "db w = Some d"
  shows "list_tasks w =
     (Inr (Task_dicts (rev (sort_key id_col (rows d)))),
      w\<lparr>cons := filter (\<lambda>(h, v). h \<noteq> con_ctr w) (cons w), con_ctr := con_ctr w + 1\<rparr>)"
  using assms
  by (simp add: list_tasks_def bind_io_def connect_ok execute_def store_call_def close_def
      ret_def fetchall_def empty_cursor_def Let_def)

lemma create_task_ok:
  assumes "faults w = []" "db w = Some d" "largest_rowid d < MAX_ROWID"
  shows "create_task payload w =
     (Inr (Task_dict \<lparr>id_col = largest_rowid d + 1, title_col = title payload, done_col = 0,
                      created_at_col = now w\<rparr>),
      w\<lparr>db := Some \<lparr>rows = rows d @
                     [\<lparr>id_col = largest_rowid d + 1, title_col = title payload, done_col = 0,
                       created_at_col = now w\<rparr>],
                   seq = nat (largest_rowid d + 1)\<rparr>,
        cons := filter (\<lambda>(h, v). h \<noteq> con_ctr w) (cons w), con_ctr := con_ctr w + 1\<rparr>)"
proof -
  have lo: "0 \<le> largest_rowid d" by (rule largest_rowid_nonneg)
  have m: "0 < MAX_ROWID" by (simp add: MAX_ROWID_def)
  show ?thesis
    using assms lo m
    by (simp add: create_task_def bind_io_def connect_ok execute_def store_call_def commit_def
        close_def ret_def fits_int64_def Let_def fetchone_def dict_def empty_cursor_def
        largest_rowid_fresh)
qed

lemma mark_done_found:
  assumes "faults w = []" "db w = Some d" "fits_int64 k"
    and "filter (\<lambda>r. id_col r = k) (rows d) = r # rs"
  shows "mark_done k w =
     (Inr (Task_dict (r\<lparr>done_col := 1\<rparr>)),
      w\<lparr>db := Some (d\<lparr>rows := map (\<lambda>r. if id_col r = k then r\<lparr>done_col := 1\<rparr> else r)
                                (rows d)\<rparr>),
        cons := filter (\<lambda>(h, v). h \<noteq> con_ctr w) (cons w), con_ctr := con_ctr w + 1\<rparr>)"
  using assms
  by (simp add: mark_done_def bind_io_def connect_ok execute_def store_call_def commit_def
      close_def ret_def fetchone_def dict_def empty_cursor_def Let_def)

lemma mark_done_missing:
  assumes "faults w = []" "db w = Some d" "fits_int64 k"
    and "filter (\<lambda>r. id_col r = k) (rows d) = []"
  shows "mark_done k w =
     (Inl (HTTPException 404 ''Task not found''),
      w\<lparr>cons := filter (\<lambda>(h, v). h \<noteq> con_ctr w) (cons w), con_ctr := con_ctr w + 1\<rparr>)"
  using assms
  by (simp add: mark_done_def bind_io_def connect_ok execute_def store_call_def commit_def
      close_def raise_def empty_cursor_def Let_def mark_absent)

lemma mark_done_overflow:
  assumes "faults w = []" "\<not> fits_int64 k"
  shows "mark_done k w =
     (Inl OverflowError, w\<lparr>cons := (con_ctr w, db w) # cons w, con_ctr := con_ctr w + 1\<rparr>)"
  using assms
  by (simp add: mark_done_def bind_io_def connect_ok execute_def)

section \<open>The effects of the store calls, whatever the faults\<close>

lemma handles_filter [simp]:
  "fst ` set (filter (\<lambda>(h, v). h \<noteq> c) xs) = fst ` set xs - {c}"
  by (induction xs) auto

lemma map_of_set_view:
  "map_of (set_view c x xs) c = (case map_of xs c of None \<Rightarrow> None | Some v \<Rightarrow> Some x)"
  by (induction xs) (auto simp: set_view_def)

lemma bind_io_proj:
  "bind_io m f w = (case fst (m w) of Inl e \<Rightarrow> (Inl e, snd (m w)) | Inr x \<Rightarrow> f x (snd (m w)))"
  by (simp add: bind_io_def case_prod_beta split: sum.split)

lemma store_call_proj [simp]:
  "db (snd (store_call w)) = db w" "cons (snd (store_call w)) = cons w"
  "now (snd (store_call w)) = now w" "con_ctr (snd (store_call w)) = con_ctr w"
  by (simp_all add: store_call_def split: list.split)

lemma store_call_error: "fst (store_call w) = Inl e \<Longrightarrow> e = OperationalError"
  by (auto simp: store_call_def split: list.splits if_splits)

lemma connect_result: "fst (connect w) = Inr c \<Longrightarrow> c = con_ctr w"
  and connect_error: "fst (connect w) = Inl e \<Longrightarrow> e = OperationalError"
  by (auto simp: connect_def bind_io_proj split: sum.splits dest: store_call_error)

lemma connect_handles:
  "open_handles (snd (connect w)) =
     (case fst (connect w) of Inl e \<Rightarrow> open_handles w | Inr c \<Rightarrow> insert c (open_handles w))"
  by (auto simp: connect_def bind_io_proj open_handles_def split: sum.splits)

lemma connect_db [simp]: "db (snd (connect w)) = db w"
  and connect_now [simp]: "now (snd (connect w)) = now w"
  by (simp_all add: connect_def bind_io_proj split: sum.split)

lemma connect_view: "fst (connect w) = Inr c \<Longrightarrow> view (snd (connect w)) c = db w"
  by (auto simp: connect_def bind_io_proj view_def split: sum.splits)

lemma execute_handles [simp]: "open_handles (snd (execute c s w)) = open_handles w"
  and execute_db [simp]: "db (snd (execute c s w)) = db w"
  and execute_now [simp]: "now (snd (execute c s w)) = now w"
  by (simp_all add: execute_def bind_io_proj open_handles_def split: option.split sum.split)

lemma execute_error:
  "fst (execute c s w) = Inl e \<Longrightarrow> e \<in> {OperationalError, OverflowError, ProgrammingError}"
  by (auto simp: execute_def bind_io_proj
      split: option.splits sum.splits if_splits dest: run_sql_Inl store_call_error)

lemma execute_success:
  "fst (execute c s w) = Inr cur \<Longrightarrow>
   bindable s \<and> run_sql (now w) s (view w c) = Inr (cur, view (snd (execute c s w)) c)"
  by (auto simp: execute_def bind_io_proj view_def map_of_set_view
      split: option.splits sum.splits if_splits)

lemma commit_handles [simp]: "open_handles (snd (commit c w)) = open_handles w"
  and commit_view [simp]: "view (snd (commit c w)) c' = view w c'"
  and commit_now [simp]: "now (snd (commit c w)) = now w"
  by (simp_all add: commit_def bind_io_proj open_handles_def view_def split: option.split sum.split)

lemma commit_error:
  "fst (commit c w) = Inl e \<Longrightarrow> e \<in> {OperationalError, OverflowError, ProgrammingError}"
  by (auto simp: commit_def bind_io_proj split: option.splits sum.splits dest: store_call_error)

lemma commit_db:
  "db (snd (commit c w)) = (case fst (commit c w) of Inl e \<Rightarrow> db w | Inr u \<Rightarrow> view w c)"
  by (simp add: commit_def bind_io_proj view_def split: option.split sum.split)

lemma close_handles [simp]: "open_handles (snd (close c w)) = open_handles w - {c}"
  and close_result [simp]: "fst (close c w) = Inr ()"
  and close_db [simp]: "db (snd (close c w)) = db w"
  by (simp_all add: close_def open_handles_def del: set_filter)

section \<open>The handlers on any store: connections\<close>

lemma health_handles:
  "case health w of (r, w') \<Rightarrow>
     (r \<notin> {Inl OperationalError, Inl OverflowError, Inl ProgrammingError} \<longrightarrow>
        open_handles w' = open_handles w - {con_ctr w}) \<and>
     (r \<in> {Inl OperationalError, Inl OverflowError, Inl ProgrammingError} \<longrightarrow>
        (\<exists>c. fst (connect w) = Inr c) \<longrightarrow> con_ctr w \<in> open_handles w')"
  by (auto simp: health_def bind_io_proj case_prod_beta connect_handles ret_def
      split: sum.split
      dest: connect_result connect_error execute_error commit_error)

lemma list_tasks_handles:
  "case list_tasks w of (r, w') \<Rightarrow>
     (r \<notin> {Inl OperationalError, Inl OverflowError, Inl ProgrammingError} \<longrightarrow>
        open_handles w' = open_handles w - {con_ctr w}) \<and>
     (r \<in> {Inl OperationalError, Inl OverflowError, Inl ProgrammingError} \<longrightarrow>
        (\<exists>c. fst (connect w) = Inr c) \<longrightarrow> con_ctr w \<in> open_handles w')"
  by (auto simp: list_tasks_def bind_io_proj case_prod_beta connect_handles ret_def Let_def
      split: sum.split
      dest: connect_result connect_error execute_error commit_error)

lemma create_task_handles:
  "case create_task p w of (r, w') \<Rightarrow>
     (r \<notin> {Inl OperationalError, Inl OverflowError, Inl ProgrammingError} \<longrightarrow>
        open_handles w' = open_handles w - {con_ctr w}) \<and>
     (r \<in> {Inl OperationalError, Inl OverflowError, Inl ProgrammingError} \<longrightarrow>
        (\<exists>c. fst (connect w) = Inr c) \<longrightarrow> con_ctr w \<in> open_handles w')"
  by (auto simp: create_task_def bind_io_proj case_prod_beta connect_handles ret_def raise_def
      dict_def Let_def
      split: sum.split option.split
      dest: connect_result connect_error execute_error commit_error)

lemma mark_done_handles:
  "case mark_done k w of (r, w') \<Rightarrow>
     (r \<notin> {Inl OperationalError, Inl OverflowError, Inl ProgrammingError} \<longrightarrow>
        open_handles w' = open_handles w - {con_ctr w}) \<and>
     (r \<in> {Inl OperationalError, Inl OverflowError, Inl ProgrammingError} \<longrightarrow>
        (\<exists>c. fst (connect w) = Inr c) \<longrightarrow> con_ctr w \<in> open_handles w')"
  by (auto simp: mark_done_def bind_io_proj case_prod_beta connect_handles ret_def raise_def
      dict_def Let_def
      split: sum.split option.split
      dest: connect_result connect_error execute_error commit_error)

text \<open>
  Claim C2 says that the connection which a handler opens is closed by the end of the
  request on every path, also where a statement raises. The handlers have no
  \<^verbatim>\<open>try\<close>/\<^verbatim>\<open>finally\<close> and no \<^verbatim>\<open>with\<close>: \<^verbatim>\<open>con.close()\<close> is an ordinary statement after the
  calls into the store. As amended: for each of the four handlers, once \<^verbatim>\<open>connect\<close> has
  returned a handle, that handle is still open at the end of the request exactly when a
  call into the store (\<^verbatim>\<open>execute\<close> or \<^verbatim>\<open>commit\<close>) has raised; on every other path, which
  includes the 404 of \<^verbatim>\<open>mark_done\<close>, the handle is closed and the open connections are those
  from before the request.
\<close>

theorem connection_closed_unless_store_raises:
  assumes "h \<in> {health, list_tasks, create_task payload, mark_done task_id}"
    and "connect w = (Inr con, w1)"
    and "h w = (r, w')"
  shows "(con \<in> open_handles w') =
           (r \<in> {Inl OperationalError, Inl OverflowError, Inl ProgrammingError}) \<and>
         (r \<notin> {Inl OperationalError, Inl OverflowError, Inl ProgrammingError} \<longrightarrow>
            open_handles w' = open_handles w - {con})"
proof -
  let ?S = "{Inl OperationalError, Inl OverflowError, Inl ProgrammingError} :: (exn + content) set"
  have c: "con = con_ctr w"
    using assms(2) connect_result [of w con] by simp
  have ex: "\<exists>c. fst (connect w) = Inr c"
    using assms(2) by simp
  have key: "(r \<notin> ?S \<longrightarrow> open_handles w' = open_handles w - {con_ctr w}) \<and>
     (r \<in> ?S \<longrightarrow> con_ctr w \<in> open_handles w')"
  proof -
    consider "h = health" | "h = list_tasks" | "h = create_task payload" | "h = mark_done task_id"
      using assms(1) by blast
    then show ?thesis
    proof cases
      case 1
      then show ?thesis using health_handles [of w] assms(3) ex by simp
    next
      case 2
      then show ?thesis using list_tasks_handles [of w] assms(3) ex by simp
    next
      case 3
      then show ?thesis
        using create_task_handles [where p = payload and w = w] assms(3) ex by simp
    next
      case 4
      then show ?thesis
        using mark_done_handles [where k = task_id and w = w] assms(3) ex by simp
    qed
  qed
  show ?thesis
  proof (cases "r \<in> ?S")
    case True
    then show ?thesis using key c by simp
  next
    case False
    then have "open_handles w' = open_handles w - {con}" using key c by simp
    then show ?thesis using False by simp
  qed
qed

theorem connection_closed_witness:
  "fst (mark_done 7 world_two_tasks) = Inl (HTTPException 404 ''Task not found'') \<and>
   0 \<notin> open_handles (snd (mark_done 7 world_two_tasks))"
proof -
  have a: "mark_done 7 \<in> {health, list_tasks, create_task \<lparr>title = ''x''\<rparr>, mark_done 7}"
    by simp
  have b: "connect world_two_tasks = (Inr 0, snd (connect world_two_tasks))"
    by (simp add: connect_ok world_two_tasks_def new_world_def)
  have r: "fst (mark_done 7 world_two_tasks) = Inl (HTTPException 404 ''Task not found'')"
    by (simp add: mark_done_missing [where d = two_tasks] world_two_tasks_def new_world_def
        two_tasks_def fits_int64_def MAX_ROWID_def)
  have c: "mark_done 7 world_two_tasks =
             (fst (mark_done 7 world_two_tasks), snd (mark_done 7 world_two_tasks))"
    by simp
  show ?thesis
    using connection_closed_unless_store_raises [OF a b c] r by simp
qed

text \<open>
  The claim as stated fails where the statement of \<^verbatim>\<open>health\<close> raises: the connection
  with handle 0 stays open.
\<close>

theorem health_leaves_connection_open:
  "fst (connect faulty_world) = Inr 0 \<and>
   fst (health faulty_world) = Inl OperationalError \<and>
   0 \<in> open_handles (snd (health faulty_world))"
  by (simp add: faulty_world_def new_world_def health_def connect_def bind_io_def store_call_def
      execute_def open_handles_def)

section \<open>The handlers on any store: tasks that are done\<close>

lemma mark_keeps_done:
  "x \<in> set xs \<Longrightarrow> done_col x = 1 \<Longrightarrow>
   x \<in> set (map (\<lambda>r. if id_col r = k then r\<lparr>done_col := 1\<rparr> else r) xs)"
  by (induction xs) auto

lemma run_sql_kept:
  assumes "run_sql ts s v = Inr (cur, v')"
  shows "done_tasks v \<subseteq> done_tasks v'"
proof (cases "(ts, s, v)" rule: run_sql.cases)
  case (9 ts k d)
  then show ?thesis
    using assms mark_keeps_done [of _ "rows d" k]
    by (auto simp: done_tasks_def rows_of_def simp del: set_map)
qed (use assms in \<open>auto simp: done_tasks_def rows_of_def Let_def split: if_splits\<close>)

lemma execute_view_kept:
  "done_tasks (view w c) \<subseteq> done_tasks (view (snd (execute c s w)) c)"
proof (cases "fst (execute c s w)")
  case (Inl e)
  then have "view (snd (execute c s w)) c = view w c"
    by (auto simp: execute_def bind_io_proj view_def split: option.splits sum.splits if_splits)
  then show ?thesis by simp
next
  case (Inr cur)
  then show ?thesis using execute_success run_sql_kept by blast
qed

lemma kept_step:
  "fst (connect w) = Inr c \<Longrightarrow>
   done_tasks (db w) \<subseteq> done_tasks (view (snd (execute c s (snd (connect w)))) c)"
  using execute_view_kept [of "snd (connect w)" c s] by (simp add: connect_view)

lemma mark_done_kept: "done_tasks (db w) \<subseteq> done_tasks (db (snd (mark_done k w)))"
  by (simp add: mark_done_def bind_io_proj case_prod_beta ret_def raise_def dict_def Let_def
      commit_db kept_step split: sum.split option.split)

lemma create_task_kept: "done_tasks (db w) \<subseteq> done_tasks (db (snd (create_task p w)))"
  by (simp add: create_task_def bind_io_proj case_prod_beta ret_def raise_def dict_def Let_def
      commit_db kept_step split: sum.split option.split)

lemma health_kept: "db (snd (health w)) = db w"
  by (simp add: health_def bind_io_proj case_prod_beta ret_def split: sum.split)

lemma list_tasks_kept: "db (snd (list_tasks w)) = db w"
  by (simp add: list_tasks_def bind_io_proj case_prod_beta ret_def Let_def split: sum.split)

lemma perf_counter_db [simp]: "db (snd (perf_counter w)) = db w"
  and perf_counter_faults [simp]: "faults (snd (perf_counter w)) = faults w"
  and perf_counter_cons [simp]: "cons (snd (perf_counter w)) = cons w"
  and perf_counter_con_ctr [simp]: "con_ctr (snd (perf_counter w)) = con_ctr w"
  and perf_counter_now [simp]: "now (snd (perf_counter w)) = now w"
  by (simp_all add: perf_counter_def split: list.split)

lemma run_endpoint_kept:
  "done_tasks (db w) \<subseteq> done_tasks (db (snd (run_endpoint e ps req w)))"
  by (cases e)
     (simp_all add: health_kept list_tasks_kept create_task_kept mark_done_kept raise_def
       ret_def metrics_def split: option.split)

lemma router_kept: "done_tasks (db w) \<subseteq> done_tasks (db (snd (router a req w)))"
  using run_endpoint_kept
  by (simp add: router_def handle_route_def bind_io_proj raise_def ret_def case_prod_beta
      split: resolution.split sum.split)

lemma exception_middleware_db: "db (snd (exception_middleware m w)) = db (snd (m w))"
  by (simp add: exception_middleware_def case_prod_beta split: sum.split exn.split)

lemma observability_mw_db:
  "db (snd (observability_mw req nxt w)) = db (snd (nxt req (snd (perf_counter w))))"
  by (simp add: observability_mw_def inc_def observe_def info_def Let_def case_prod_beta
      split: sum.split)

lemma middleware_kept:
  assumes "\<And>req w. done_tasks (db w) \<subseteq> done_tasks (db (snd (nxt req w)))"
  shows "done_tasks (db w) \<subseteq> done_tasks (db (snd (foldr apply_middleware ms nxt req w)))"
proof (induction ms arbitrary: req w)
  case Nil
  then show ?case by (simp add: assms)
next
  case (Cons m ms)
  show ?case
  proof (cases m)
    case Observability_mw
    have "done_tasks (db (snd (perf_counter w))) \<subseteq>
          done_tasks (db (snd (foldr apply_middleware ms nxt req (snd (perf_counter w)))))"
      by (rule Cons.IH)
    then show ?thesis using Observability_mw by (simp add: observability_mw_db)
  next
    case OpenTelemetry
    then show ?thesis using Cons.IH by simp
  qed
qed

lemma serve_kept: "done_tasks (db w) \<subseteq> done_tasks (db (snd (serve a req w)))"
proof -
  have "done_tasks (db w) \<subseteq> done_tasks (db (snd (middleware_stack a req w)))"
    unfolding middleware_stack_def
    by (rule middleware_kept) (simp add: exception_middleware_db router_kept)
  then show ?thesis
    by (simp add: serve_def case_prod_beta split: sum.split)
qed

lemma serve_all_kept: "done_tasks (db w) \<subseteq> done_tasks (db (serve_all a reqs w))"
proof (induction reqs arbitrary: w)
  case Nil
  then show ?case by simp
next
  case (Cons req reqs)
  have "done_tasks (db w) \<subseteq> done_tasks (db (snd (serve a req w)))" by (rule serve_kept)
  also have "\<dots> \<subseteq> done_tasks (db (serve_all a reqs (snd (serve a req w))))" by (rule Cons.IH)
  finally show ?case by simp
qed

text \<open>
  Claim C8: for every sequence of requests, served by any application object built from
  the handlers of the source (so for every sequence of create, list, mark-done and health),
  a task that is done stays done. A row whose \<^verbatim>\<open>done\<close> is 1 is found unchanged in the table
  after the requests, whatever the store does in between.
\<close>

theorem done_never_reverts:
  assumes "t \<in> set (rows_of (db w))" and "done_col t = 1"
  shows "t \<in> set (rows_of (db (serve_all a reqs w)))"
  using assms serve_all_kept [of w a reqs] by (auto simp: done_tasks_def)

theorem done_never_reverts_witness:
  "\<lparr>id_col = 1, title_col = ''write report'', done_col = 1,
    created_at_col = ''2024-01-01 00:00:00''\<rparr>
   \<in> set (rows_of (db (serve_all app_38
        [client_patch ''/tasks/1/done'', client_post ''/tasks'' (Some (JObject [(''title'', JString ''call'')])),
         client_patch ''/tasks/2/done'', client_get ''/tasks'', client_get ''/health'']
        world_two_tasks)))"
  using done_never_reverts
    [of "\<lparr>id_col = 1, title_col = ''write report'', done_col = 1,
          created_at_col = ''2024-01-01 00:00:00''\<rparr>" world_two_tasks app_38
        "[client_patch ''/tasks/1/done'', client_post ''/tasks'' (Some (JObject [(''title'', JString ''call'')])),
          client_patch ''/tasks/2/done'', client_get ''/tasks'', client_get ''/health'']"]
  by (simp add: world_two_tasks_def new_world_def two_tasks_def rows_of_def)

section \<open>Routing on the application of line 38\<close>

lemma routes_app_38:
  "routes app_38 =
     [\<lparr>route_method = ''GET'', route_path = ''/openapi.json'', route_status = 200,
       endpoint = Docs\<rparr>,
      \<lparr>route_method = ''GET'', route_path = ''/docs'', route_status = 200, endpoint = Docs\<rparr>,
      \<lparr>route_method = ''GET'', route_path = ''/docs/oauth2-redirect'', route_status = 200,
       endpoint = Docs\<rparr>,
      \<lparr>route_method = ''GET'', route_path = ''/redoc'', route_status = 200, endpoint = Docs\<rparr>,
      \<lparr>route_method = ''GET'', route_path = ''/health'', route_status = 200,
       endpoint = Health\<rparr>,
      \<lparr>route_method = ''GET'', route_path = ''/tasks'', route_status = 200,
       endpoint = List_tasks\<rparr>,
      \<lparr>route_method = ''POST'', route_path = ''/tasks'', route_status = 201,
       endpoint = Create_task\<rparr>,
      \<lparr>route_method = ''PATCH'', route_path = ''/tasks/{task_id}/done'', route_status = 200,
       endpoint = Mark_done\<rparr>,
      \<lparr>route_method = ''GET'', route_path = ''/metrics'', route_status = 200,
       endpoint = Metrics\<rparr>]"
  by (simp add: app_38_def FastAPI_def on_event_def add_middleware_def add_api_route_def Let_def)

lemma stack_app_38:
  "middleware_stack app_38 =
     (\<lambda>req. observability_mw req (\<lambda>req. exception_middleware (router app_38 req)))"
  by (simp add: middleware_stack_def app_38_def FastAPI_def on_event_def add_middleware_def
      add_api_route_def Let_def)

lemma resolve_health:
  "resolve (routes app_38) (client_get ''/health'') =
     Full \<lparr>route_method = ''GET'', route_path = ''/health'', route_status = 200,
           endpoint = Health\<rparr> []"
  by (simp add: routes_app_38 client_get_def match_path_def param_name_def)

lemma resolve_list:
  "resolve (routes app_38) (client_get ''/tasks'') =
     Full \<lparr>route_method = ''GET'', route_path = ''/tasks'', route_status = 200,
           endpoint = List_tasks\<rparr> []"
  by (simp add: routes_app_38 client_get_def match_path_def param_name_def)

lemma resolve_create:
  "resolve (routes app_38) (client_post ''/tasks'' b) =
     Full \<lparr>route_method = ''POST'', route_path = ''/tasks'', route_status = 201,
           endpoint = Create_task\<rparr> []"
  by (simp add: routes_app_38 client_post_def match_path_def param_name_def)

lemma split_append: "c \<notin> set xs \<Longrightarrow> split c (xs @ c # ys) = xs # split c ys"
  by (induction xs) auto

lemma resolve_mark_done:
  assumes "s \<noteq> []" "CHR ''/'' \<notin> set s"
  shows "resolve (routes app_38) (client_patch (task_done_path s)) =
     Full \<lparr>route_method = ''PATCH'', route_path = ''/tasks/{task_id}/done'', route_status = 200,
           endpoint = Mark_done\<rparr> [(''task_id'', s)]"
  using assms
  by (simp add: routes_app_38 client_patch_def task_done_path_def match_path_def param_name_def
      split_append)

lemma serve_app_38_response:
  "fst (serve app_38 req w) =
     (case fst (exception_middleware (router app_38 req) (snd (perf_counter w))) of
        Inl e \<Rightarrow> \<lparr>status_code = 500, body = Plain_text ''Internal Server Error''\<rparr>
      | Inr r \<Rightarrow> r)"
  by (simp add: serve_def stack_app_38 observability_mw_def Let_def case_prod_beta
      split: sum.split)

lemma serve_app_38_db:
  "db (snd (serve app_38 req w)) =
   db (snd (exception_middleware (router app_38 req) (snd (perf_counter w))))"
  by (simp add: serve_def stack_app_38 observability_mw_def inc_def observe_def info_def
      Let_def case_prod_beta split: sum.split)

lemma serve_app_38_faults:
  "faults (snd (serve app_38 req w)) =
   faults (snd (exception_middleware (router app_38 req) (snd (perf_counter w))))"
  by (simp add: serve_def stack_app_38 observability_mw_def inc_def observe_def info_def
      perf_counter_def Let_def case_prod_beta split: sum.split list.split)

lemma serve_app_38_now:
  "now (snd (serve app_38 req w)) =
   now (snd (exception_middleware (router app_38 req) (snd (perf_counter w))))"
  by (simp add: serve_def stack_app_38 observability_mw_def inc_def observe_def info_def
      perf_counter_def Let_def case_prod_beta split: sum.split list.split)

text \<open>
  The object of line 38 answers \<^verbatim>\<open>GET /health\<close> as the handler of lines 83-88 says, and
  as \<^verbatim>\<open>test_health\<close> of tests/test_api.py expects from the imported \<^verbatim>\<open>app\<close>.
\<close>

lemma app_38_health:
  "faults w = [] \<Longrightarrow>
   fst (serve app_38 (client_get ''/health'') w) =
     \<lparr>status_code = 200, body = Dict [(''status'', ''ok''), (''db'', ''ok'')]\<rparr>"
  by (simp add: serve_app_38_response exception_middleware_def router_def resolve_health
      handle_route_def bind_io_def health_ok ret_def)

section \<open>The exported application\<close>

lemma exported_app_routes: "routes (app env) = routes (FastAPI ''FastAPI'')"
  by (simp add: app_def setup_tracing_def add_middleware_def Let_def)

lemma exported_app_stack:
  "middleware_stack (app env) = (\<lambda>req. exception_middleware (router (app env) req))"
  by (simp add: middleware_stack_def app_def setup_tracing_def add_middleware_def Let_def
      FastAPI_def)

text \<open>
  The exported object has no startup hook and no observability middleware either, while
  the object of line 38 has both.
\<close>

lemma exported_app_bare:
  "on_startup (app env) = [] \<and> Observability_mw \<notin> set (user_middleware (app env)) \<and>
   on_startup app_38 = [Startup] \<and> user_middleware app_38 = [Observability_mw]"
  by (simp add: app_def app_38_def setup_tracing_def add_middleware_def on_event_def
      add_api_route_def FastAPI_def Let_def)

lemma startup_app_38:
  "faults w = [] \<Longrightarrow> db w = None \<Longrightarrow>
   db (snd (run_hooks (on_startup app_38) w)) = Some \<lparr>rows = [], seq = 0\<rparr>"
  using exported_app_bare [of Map.empty] init_db_ok [of w]
  by (simp add: startup_def bind_io_proj ret_def case_prod_beta split: sum.split)

text \<open>
  Claim C1 says that the application object which the module exports serves the
  documented endpoints, so that \<^verbatim>\<open>GET /health\<close> on it is answered by the health handler
  with status 200 and the body \<^verbatim>\<open>{status: ok, db: ok}\<close> while the store is reachable.
  The code does otherwise: line 124 binds \<^verbatim>\<open>app\<close> to a new object, which has none of the
  routes that lines 62-123 registered. For every environment and every state of the
  process, the exported application answers \<^verbatim>\<open>GET /health\<close> with status 404 and the body
  \<^verbatim>\<open>{detail: Not Found}\<close>, and touches nothing.
\<close>

theorem exported_app_health_not_found:
  "serve (app env) (client_get ''/health'') w =
     (\<lparr>status_code = 404, body = Detail ''Not Found''\<rparr>, w)"
  by (simp add: serve_def exported_app_stack exception_middleware_def router_def
      exported_app_routes FastAPI_def client_get_def match_path_def param_name_def raise_def)

section \<open>A request for a task that does not exist\<close>

lemma run_sql_update_none:
  "run_sql ts (UPDATE_tasks_SET_done_1_WHERE_id k) v = Inr (cur, v') \<Longrightarrow> rowcount cur = 0 \<Longrightarrow>
   v' = v"
  by (cases v) (auto simp: empty_cursor_def mark_absent)

lemma execute_update_none:
  assumes "fst (execute c (UPDATE_tasks_SET_done_1_WHERE_id k) w) = Inr cur" "rowcount cur = 0"
  shows "view (snd (execute c (UPDATE_tasks_SET_done_1_WHERE_id k) w)) c = view w c"
  using execute_success [OF assms(1)] assms(2) run_sql_update_none by blast

lemma mark_done_404_db:
  "fst (mark_done k w) = Inl (HTTPException code detail) \<longrightarrow> db (snd (mark_done k w)) = db w"
  by (auto simp: mark_done_def bind_io_proj case_prod_beta ret_def raise_def dict_def Let_def
      commit_db execute_update_none connect_view
      split: sum.split option.split
      dest: connect_error execute_error commit_error)

text \<open>
  Claim C10: when \<^verbatim>\<open>mark_done\<close> fails with status 404, the store is as it was: the
  committed table, with every column of every row, and its sequence are the same before
  and after the call. This holds whatever the faults of the store are.
\<close>

theorem mark_done_not_found_leaves_store:
  assumes "mark_done task_id w = (Inl (HTTPException 404 detail), w')"
  shows "db w' = db w"
  using assms mark_done_404_db [of task_id w 404 detail] by simp

theorem mark_done_not_found_witness:
  "mark_done 7 world_two_tasks =
     (Inl (HTTPException 404 ''Task not found''), snd (mark_done 7 world_two_tasks)) \<and>
   db (snd (mark_done 7 world_two_tasks)) = Some two_tasks"
proof -
  have r: "mark_done 7 world_two_tasks =
     (Inl (HTTPException 404 ''Task not found''), snd (mark_done 7 world_two_tasks))"
    by (simp add: mark_done_missing [where d = two_tasks] world_two_tasks_def new_world_def
        two_tasks_def fits_int64_def MAX_ROWID_def)
  show ?thesis
    using mark_done_not_found_leaves_store [OF r] r by (simp add: world_two_tasks_def)
qed

section \<open>The middleware records every request once\<close>

text \<open>
  Claim C9: for every request that the observability middleware processes, whatever the
  rest of the application \<^verbatim>\<open>call_next\<close> does, the middleware returns what \<^verbatim>\<open>call_next\<close>
  returned or raises what it raised, unchanged, and on top of the state that \<^verbatim>\<open>call_next\<close>
  left it adds exactly one increment of the counter, at the label of method, path and
  status, one observation of the histogram and one log line; the status is 500 when
  \<^verbatim>\<open>call_next\<close> raised and the status code of the response otherwise.
\<close>

theorem observability_mw_records_once:
  "(let (start, w0) = perf_counter w;
        (r, w1) = call_next request w0;
        (t, w2) = perf_counter w1;
        status = (case r of Inl e \<Rightarrow> ''500'' | Inr response \<Rightarrow> str (status_code response));
        labels = (http_method request, url_path request);
        (res, w') = observability_mw request call_next w
    in res = r \<and>
       REQ_COUNT w' =
         (REQ_COUNT w1)((http_method request, url_path request, status) :=
            REQ_COUNT w1 (http_method request, url_path request, status) + 1) \<and>
       REQ_LAT w' = (REQ_LAT w1)(labels := REQ_LAT w1 labels @ [t - start]) \<and>
       log w' = log w1 @ [log_line request status (t - start)] \<and>
       db w' = db w1 \<and> cons w' = cons w1)"
  by (simp add: observability_mw_def inc_def observe_def info_def Let_def case_prod_beta
      perf_counter_def split: sum.split list.split)

theorem observability_mw_witness:
  "fst (observability_mw (client_get ''/health'')
         (\<lambda>req. exception_middleware (router app_38 req)) faulty_world) = Inl OperationalError \<and>
   REQ_COUNT (snd (observability_mw (client_get ''/health'')
         (\<lambda>req. exception_middleware (router app_38 req)) faulty_world))
       (''GET'', ''/health'', ''500'') = 1 \<and>
   log (snd (observability_mw (client_get ''/health'')
         (\<lambda>req. exception_middleware (router app_38 req)) faulty_world)) =
     [''{\"event\":\"request\",\"method\":\"GET\",\"path\":\"/health\",\"status\":500,\"duration_ms\":0}'']"
proof -
  have h: "health faulty_world =
      (Inl OperationalError, faulty_world\<lparr>faults := [], cons := [(0, None)], con_ctr := 1\<rparr>)"
    by (simp add: faulty_world_def new_world_def health_def connect_def bind_io_def
        store_call_def execute_def)
  have p: "perf_counter faulty_world = (0, faulty_world)"
    by (simp add: perf_counter_def faulty_world_def new_world_def)
  have n: "exception_middleware (router app_38 (client_get ''/health'')) faulty_world =
      (Inl OperationalError, faulty_world\<lparr>faults := [], cons := [(0, None)], con_ctr := 1\<rparr>)"
    by (simp add: exception_middleware_def router_def resolve_health handle_route_def
        bind_io_def h)
  have f: "REQ_COUNT faulty_world = (\<lambda>_. 0)" "log faulty_world = []" "ticks faulty_world = []"
    "clock faulty_world = 0"
    by (simp_all add: faulty_world_def new_world_def)
  have g: "http_method (client_get ''/health'') = ''GET''"
    "url_path (client_get ''/health'') = ''/health''"
    by (simp_all add: client_get_def)
  show ?thesis
    using observability_mw_records_once
      [of faulty_world "\<lambda>req. exception_middleware (router app_38 req)" "client_get ''/health''"]
    by (simp add: p n f perf_counter_def g log_line_def str_def duration_ms_def
        str_nat.simps [of 0] Let_def case_prod_beta)
qed

section \<open>Creating and listing tasks\<close>

text \<open>
  The theorems of this section and of the next two are about the application object of
  line 38, on which the routes are registered.
\<close>

lemma client_post_json [simp]: "json (client_post p b) = b"
  by (simp add: client_post_def)

lemma router_create:
  "router app_38 (client_post ''/tasks'' b) =
     (case validate_TaskCreate b of
        None \<Rightarrow> raise RequestValidationError
      | Some payload \<Rightarrow> bind_io (create_task payload) (\<lambda>c. ret \<lparr>status_code = 201, body = c\<rparr>))"
  by (rule ext) (simp add: router_def resolve_create handle_route_def bind_io_def raise_def
      split: option.split)

lemma router_list:
  "router app_38 (client_get ''/tasks'') =
     bind_io list_tasks (\<lambda>c. ret \<lparr>status_code = 200, body = c\<rparr>)"
  by (rule ext) (simp add: router_def resolve_list handle_route_def)

lemma serve_create_valid:
  assumes "title_member b = Some (JString t)" "1 \<le> length t" "length t \<le> 200"
    and "faults w = []" "db w = Some d" "largest_rowid d < MAX_ROWID"
  shows "fst (serve app_38 (client_post ''/tasks'' b) w) =
           \<lparr>status_code = 201,
            body = Task_dict \<lparr>id_col = largest_rowid d + 1, title_col = t, done_col = 0,
                             created_at_col = now w\<rparr>\<rparr>"
    and "db (snd (serve app_38 (client_post ''/tasks'' b) w)) =
           Some \<lparr>rows = rows d @ [\<lparr>id_col = largest_rowid d + 1, title_col = t, done_col = 0,
                                    created_at_col = now w\<rparr>],
                 seq = nat (largest_rowid d + 1)\<rparr>"
  using assms
  by (simp_all add: serve_app_38_response serve_app_38_db exception_middleware_def
      router_create validate_TaskCreate_def bind_io_def ret_def
      create_task_ok [where d = d])

lemma serve_create_invalid:
  assumes "validate_TaskCreate b = None"
  shows "fst (serve app_38 (client_post ''/tasks'' b) w) =
           \<lparr>status_code = 422, body = Validation_detail\<rparr>"
    and "db (snd (serve app_38 (client_post ''/tasks'' b) w)) = db w"
  using assms
  by (simp_all add: serve_app_38_response serve_app_38_db exception_middleware_def
      router_create raise_def)

text \<open>
  Claim C3: for every title of 1 to 200 characters, on a store that is reachable (no
  fault, the table exists, and the rowids are not used up), creating a task returns status
  201 with a task whose title is the input, whose \<^verbatim>\<open>done\<close> is 0, and whose id is fresh: it is
  the id of no row of the table and larger than every id handed out before. The task is
  the row that the table has gained.
\<close>

theorem create_task_returns_new_task:
  assumes "title_member b = Some (JString t)" and "1 \<le> length t" and "length t \<le> 200"
    and "faults w = []" and "db w = Some d" and "largest_rowid d < MAX_ROWID"
  shows "\<exists>r. fst (serve app_38 (client_post ''/tasks'' b) w) =
               \<lparr>status_code = 201, body = Task_dict r\<rparr> \<and>
             title_col r = t \<and> done_col r = 0 \<and>
             id_col r \<notin> id_col ` set (rows d) \<and> int (seq d) < id_col r \<and>
             db (snd (serve app_38 (client_post ''/tasks'' b) w)) =
               Some \<lparr>rows = rows d @ [r], seq = nat (id_col r)\<rparr>"
proof -
  let ?r = "\<lparr>id_col = largest_rowid d + 1, title_col = t, done_col = 0,
             created_at_col = now w\<rparr>"
  have fresh: "id_col ?r \<notin> id_col ` set (rows d)"
    using largest_rowid_bound [of _ d] by fastforce
  have "int (seq d) \<le> largest_rowid d"
    by (simp add: largest_rowid_def fold_max_ge)
  then have above: "int (seq d) < id_col ?r" by simp
  show ?thesis
    using serve_create_valid [OF assms] fresh above by (intro exI [of _ ?r]) simp
qed

theorem create_task_returns_new_task_witness:
  "\<exists>r. fst (serve app_38 (client_post ''/tasks'' (Some (JObject [(''title'', JString ''write report'')])))
                world_two_tasks) =
          \<lparr>status_code = 201, body = Task_dict r\<rparr> \<and>
        title_col r = ''write report'' \<and> done_col r = 0 \<and>
        id_col r \<notin> id_col ` set (rows two_tasks) \<and> int (seq two_tasks) < id_col r \<and>
        db (snd (serve app_38 (client_post ''/tasks'' (Some (JObject [(''title'', JString ''write report'')])))
                  world_two_tasks)) =
          Some \<lparr>rows = rows two_tasks @ [r], seq = nat (id_col r)\<rparr>"
proof -
  have a: "title_member (Some (JObject [(''title'', JString ''write report'')])) =
      Some (JString ''write report'')"
    by (simp add: title_member_def)
  have b: "1 \<le> length ''write report''" "length ''write report'' \<le> 200"
    by simp_all
  have c: "faults world_two_tasks = []" "db world_two_tasks = Some two_tasks"
    by (simp_all add: world_two_tasks_def new_world_def)
  have d: "largest_rowid two_tasks < MAX_ROWID"
    by (simp add: largest_rowid_def two_tasks_def MAX_ROWID_def)
  show ?thesis
    using create_task_returns_new_task [OF a b c d] .
qed

text \<open>
  Claim C4 says that creating a task answers with status 422 if and only if the title of
  the request is absent, empty or longer than 200 characters. The field is declared as
  \<^verbatim>\<open>title: str\<close>, so a title that is present but is not a string is refused as well. As
  amended: on a store that is reachable, creating a task answers with status 422 if and
  only if the title of the request is absent, is not a string, is empty or is longer than
  200 characters; then the store is unchanged (no row is inserted); otherwise the answer
  is status 201 and the new task, which is the row that the table has gained.
\<close>

theorem create_task_validation:
  assumes "faults w = []" and "db w = Some d" and "largest_rowid d < MAX_ROWID"
  shows "(status_code (fst (serve app_38 (client_post ''/tasks'' b) w)) = 422) =
           (title_member b = None \<or>
            (\<exists>v. title_member b = Some v \<and> (\<forall>t. v \<noteq> JString t)) \<or>
            (\<exists>t. title_member b = Some (JString t) \<and> (t = [] \<or> 200 < length t))) \<and>
         (status_code (fst (serve app_38 (client_post ''/tasks'' b) w)) = 422 \<longrightarrow>
            db (snd (serve app_38 (client_post ''/tasks'' b) w)) = db w) \<and>
         (status_code (fst (serve app_38 (client_post ''/tasks'' b) w)) \<noteq> 422 \<longrightarrow>
            (\<exists>r. fst (serve app_38 (client_post ''/tasks'' b) w) =
                   \<lparr>status_code = 201, body = Task_dict r\<rparr> \<and>
                 db (snd (serve app_38 (client_post ''/tasks'' b) w)) =
                   Some \<lparr>rows = rows d @ [r], seq = nat (id_col r)\<rparr>))"
proof (cases "validate_TaskCreate b")
  case None
  then have "title_member b = None \<or>
      (\<exists>v. title_member b = Some v \<and> (\<forall>t. v \<noteq> JString t)) \<or>
      (\<exists>t. title_member b = Some (JString t) \<and> (t = [] \<or> 200 < length t))"
    by (auto simp: validate_TaskCreate_def Suc_le_eq
        split: option.splits json_value.splits if_splits)
  then show ?thesis
    using serve_create_invalid [OF None, of w] by simp
next
  case (Some payload)
  then obtain t where t: "title_member b = Some (JString t)" "1 \<le> length t" "length t \<le> 200"
    by (auto simp: validate_TaskCreate_def split: option.splits json_value.splits if_splits)
  then have "\<not> (title_member b = None \<or>
      (\<exists>v. title_member b = Some v \<and> (\<forall>t. v \<noteq> JString t)) \<or>
      (\<exists>t. title_member b = Some (JString t) \<and> (t = [] \<or> 200 < length t)))"
    by auto
  then show ?thesis
    using serve_create_valid [OF t assms] by simp
qed

theorem create_task_validation_witness:
  "status_code (fst (serve app_38 (client_post ''/tasks'' (Some (JObject [(''title'', JString [])])))
                      world_two_tasks)) = 422 \<and>
   db (snd (serve app_38 (client_post ''/tasks'' (Some (JObject [(''title'', JString [])])))
             world_two_tasks)) = Some two_tasks \<and>
   fst (serve app_38 (client_post ''/tasks'' (Some (JObject [(''title'', JString ''call'')])))
          world_two_tasks) =
     \<lparr>status_code = 201,
      body = Task_dict \<lparr>id_col = 3, title_col = ''call'', done_col = 0,
                       created_at_col = ''2024-01-01 00:00:00''\<rparr>\<rparr>"
proof -
  have a: "title_member (Some (JObject [(''title'', JString [])])) = Some (JString [])"
    by (simp add: title_member_def)
  have c: "faults world_two_tasks = []" "db world_two_tasks = Some two_tasks"
    by (simp_all add: world_two_tasks_def new_world_def)
  have d: "largest_rowid two_tasks < MAX_ROWID"
    by (simp add: largest_rowid_def two_tasks_def MAX_ROWID_def)
  have l: "largest_rowid two_tasks = 2"
    by (simp add: largest_rowid_def two_tasks_def)
  have n: "now world_two_tasks = ''2024-01-01 00:00:00''"
    by (simp add: world_two_tasks_def new_world_def)
  have v: "title_member (Some (JObject [(''title'', JString ''call'')])) = Some (JString ''call'')"
    by (simp add: title_member_def)
  have ok: "fst (serve app_38 (client_post ''/tasks'' (Some (JObject [(''title'', JString ''call'')])))
          world_two_tasks) =
     \<lparr>status_code = 201,
      body = Task_dict \<lparr>id_col = 3, title_col = ''call'', done_col = 0,
                       created_at_col = ''2024-01-01 00:00:00''\<rparr>\<rparr>"
    using serve_create_valid(1) [OF v _ _ c d] l n by simp
  show ?thesis
    using create_task_validation [OF c d, of "Some (JObject [(''title'', JString [])])"] a c(2) ok
    by simp
qed

text \<open>
  The claim as stated fails for a title that is a number or a list: it is present, it is
  not the empty string and it is not longer than 200 characters, and the answer is 422.
\<close>

theorem create_task_title_not_a_string:
  "title_member (Some (JObject [(''title'', JNumber 123)])) = Some (JNumber 123) \<and>
   fst (serve app_38 (client_post ''/tasks'' (Some (JObject [(''title'', JNumber 123)])))
          world_two_tasks) = \<lparr>status_code = 422, body = Validation_detail\<rparr> \<and>
   title_member (Some (JObject [(''title'', JArray [JString ''call''])])) =
     Some (JArray [JString ''call'']) \<and>
   fst (serve app_38 (client_post ''/tasks'' (Some (JObject [(''title'', JArray [JString ''call''])])))
          world_two_tasks) = \<lparr>status_code = 422, body = Validation_detail\<rparr>"
proof -
  have "validate_TaskCreate (Some (JObject [(''title'', JNumber 123)])) = None"
    and "validate_TaskCreate (Some (JObject [(''title'', JArray [JString ''call''])])) = None"
    by (simp_all add: validate_TaskCreate_def title_member_def)
  then show ?thesis
    by (simp add: serve_create_invalid(1) title_member_def)
qed

lemma serve_create_env:
  assumes "title_member b = Some (JString t)" "1 \<le> length t" "length t \<le> 200"
    and "faults w = []" "db w = Some d" "largest_rowid d < MAX_ROWID"
  shows "faults (snd (serve app_38 (client_post ''/tasks'' b) w)) = []"
    and "now (snd (serve app_38 (client_post ''/tasks'' b) w)) = now w"
  using assms
  by (simp_all add: serve_app_38_faults serve_app_38_now exception_middleware_def
      router_create validate_TaskCreate_def bind_io_def ret_def
      create_task_ok [where d = d])

lemma creations:
  assumes "faults w = []" and "db w = Some d"
    and "\<forall>t\<in>set titles. 1 \<le> length t \<and> length t \<le> 200"
    and "largest_rowid d + int (length titles) \<le> MAX_ROWID"
  shows "\<exists>d'. db (serve_all app_38
                  (map (\<lambda>t. client_post ''/tasks'' (Some (JObject [(''title'', JString t)]))) titles) w) = Some d' \<and>
           rows d' = rows d @
             map (\<lambda>i. \<lparr>id_col = largest_rowid d + 1 + int i, title_col = titles ! i,
                        done_col = 0, created_at_col = now w\<rparr>) [0..<length titles] \<and>
           largest_rowid d' = largest_rowid d + int (length titles) \<and>
           faults (serve_all app_38
                  (map (\<lambda>t. client_post ''/tasks'' (Some (JObject [(''title'', JString t)]))) titles) w) = [] \<and>
           now (serve_all app_38
                  (map (\<lambda>t. client_post ''/tasks'' (Some (JObject [(''title'', JString t)]))) titles) w) = now w"
  using assms
proof (induction titles arbitrary: w d)
  case Nil
  then show ?case by simp
next
  case (Cons t ts)
  let ?b = "Some (JObject [(''title'', JString t)])"
  let ?r = "\<lparr>id_col = largest_rowid d + 1, title_col = t, done_col = 0, created_at_col = now w\<rparr>"
  let ?d1 = "\<lparr>rows = rows d @ [?r], seq = nat (largest_rowid d + 1)\<rparr>"
  let ?w1 = "snd (serve app_38 (client_post ''/tasks'' ?b) w)"
  have tm: "title_member ?b = Some (JString t)" by (simp add: title_member_def)
  have len: "1 \<le> length t" "length t \<le> 200" using Cons.prems(3) by simp_all
  have room: "largest_rowid d < MAX_ROWID" using Cons.prems(4) by simp
  have db1: "db ?w1 = Some ?d1"
    using serve_create_valid(2) [OF tm len Cons.prems(1,2) room] .
  have env: "faults ?w1 = []" "now ?w1 = now w"
    using serve_create_env [OF tm len Cons.prems(1,2) room] by simp_all
  have l1: "largest_rowid ?d1 = largest_rowid d + 1"
    using largest_rowid_append [of ?r d] by simp
  have "\<forall>t\<in>set ts. 1 \<le> length t \<and> length t \<le> 200" using Cons.prems(3) by simp
  moreover have "largest_rowid ?d1 + int (length ts) \<le> MAX_ROWID"
    using Cons.prems(4) l1 by simp
  ultimately obtain d' where d':
    "db (serve_all app_38 (map (\<lambda>t. client_post ''/tasks'' (Some (JObject [(''title'', JString t)]))) ts) ?w1) = Some d'"
    "rows d' = rows ?d1 @
       map (\<lambda>i. \<lparr>id_col = largest_rowid ?d1 + 1 + int i, title_col = ts ! i,
                  done_col = 0, created_at_col = now ?w1\<rparr>) [0..<length ts]"
    "largest_rowid d' = largest_rowid ?d1 + int (length ts)"
    "faults (serve_all app_38 (map (\<lambda>t. client_post ''/tasks'' (Some (JObject [(''title'', JString t)]))) ts) ?w1) = []"
    "now (serve_all app_38 (map (\<lambda>t. client_post ''/tasks'' (Some (JObject [(''title'', JString t)]))) ts) ?w1) = now ?w1"
    using Cons.IH [OF env(1) db1] by blast
  have "rows d' = rows d @
      map (\<lambda>i. \<lparr>id_col = largest_rowid d + 1 + int i, title_col = (t # ts) ! i,
                 done_col = 0, created_at_col = now w\<rparr>) [0..<length (t # ts)]"
    using d'(2) l1 env(2) by (simp add: map_upt_Suc add.assoc del: upt_Suc)
  then show ?case
    using d'(1,3,4,5) l1 env(2) by simp
qed

lemma descending:
  assumes "distinct (map id_col xs)"
  shows "sorted_wrt (\<lambda>a b. id_col b < id_col a) (rev (sort_key id_col xs))"
proof -
  have "distinct xs" and "inj_on id_col (set xs)"
    using assms by (simp_all add: distinct_map)
  then have "distinct (map id_col (sort_key id_col xs))"
    by (simp add: distinct_map)
  then have "sorted_wrt (<) (map id_col (sort_key id_col xs))"
    by (simp add: strict_sorted_iff)
  then show ?thesis
    by (simp add: sorted_wrt_rev sorted_wrt_map)
qed

text \<open>
  Claim C5: for every state of the store (reachable, the table exists, the ids of its
  rows distinct as the primary key has them), listing returns status 200 and all the
  stored tasks, each once, ordered by id strictly descending; the store is unchanged.
\<close>

theorem list_tasks_all_descending:
  assumes "faults w = []" and "db w = Some d" and "distinct (map id_col (rows d))"
  shows "\<exists>ts. fst (serve app_38 (client_get ''/tasks'') w) =
                \<lparr>status_code = 200, body = Task_dicts ts\<rparr> \<and>
              set ts = set (rows d) \<and> length ts = length (rows d) \<and>
              sorted_wrt (\<lambda>a b. id_col b < id_col a) ts \<and>
              db (snd (serve app_38 (client_get ''/tasks'') w)) = db w"
proof -
  let ?ts = "rev (sort_key id_col (rows d))"
  have "fst (serve app_38 (client_get ''/tasks'') w) =
          \<lparr>status_code = 200, body = Task_dicts ?ts\<rparr>"
    and "db (snd (serve app_38 (client_get ''/tasks'') w)) = db w"
    using assms(1,2)
    by (simp_all add: serve_app_38_response serve_app_38_db exception_middleware_def
        router_list bind_io_def ret_def list_tasks_ok [where d = d])
  moreover have "set ?ts = set (rows d)" "length ?ts = length (rows d)"
    by simp_all
  moreover have "sorted_wrt (\<lambda>a b. id_col b < id_col a) ?ts"
    using assms(3) by (rule descending)
  ultimately show ?thesis by blast
qed

theorem list_tasks_all_descending_witness:
  "\<exists>ts. fst (serve app_38 (client_get ''/tasks'') world_two_tasks) =
           \<lparr>status_code = 200, body = Task_dicts ts\<rparr> \<and>
         set ts = set (rows two_tasks) \<and> length ts = length (rows two_tasks) \<and>
         sorted_wrt (\<lambda>a b. id_col b < id_col a) ts \<and>
         db (snd (serve app_38 (client_get ''/tasks'') world_two_tasks)) = db world_two_tasks"
proof -
  have c: "faults world_two_tasks = []" "db world_two_tasks = Some two_tasks"
    by (simp_all add: world_two_tasks_def new_world_def)
  have d: "distinct (map id_col (rows two_tasks))"
    by (simp add: two_tasks_def)
  show ?thesis
    using list_tasks_all_descending [OF c d] .
qed

lemma sorted_ids: "sorted (map (\<lambda>i. (a::int) + int i) [0..<n])"
  by (induction n) (auto simp: sorted_append)

text \<open>
  In particular, \<open>N\<close> creations on the empty table that \<^verbatim>\<open>init_db\<close> leaves are followed
  by a listing of exactly those \<open>N\<close> tasks, the newest first: they have the ids \<open>N\<close> down
  to 1, and the titles in the reverse of the order in which they were sent.
\<close>

lemma list_after_creations:
  assumes "faults w = []" and "db w = Some \<lparr>rows = [], seq = 0\<rparr>"
    and "\<forall>t\<in>set titles. 1 \<le> length t \<and> length t \<le> 200"
    and "int (length titles) \<le> MAX_ROWID"
  shows "fst (serve app_38 (client_get ''/tasks'')
           (serve_all app_38
              (map (\<lambda>t. client_post ''/tasks'' (Some (JObject [(''title'', JString t)]))) titles) w)) =
         \<lparr>status_code = 200,
          body = Task_dicts (rev (map (\<lambda>i. \<lparr>id_col = 1 + int i, title_col = titles ! i,
                                              done_col = 0, created_at_col = now w\<rparr>)
                                      [0..<length titles]))\<rparr>"
proof -
  let ?d = "\<lparr>rows = [], seq = 0\<rparr>"
  let ?w = "serve_all app_38 (map (\<lambda>t. client_post ''/tasks'' (Some (JObject [(''title'', JString t)]))) titles) w"
  let ?new = "map (\<lambda>i. \<lparr>id_col = 1 + int i, title_col = titles ! i, done_col = 0,
                         created_at_col = now w\<rparr>) [0..<length titles]"
  have l: "largest_rowid ?d = 0" by (simp add: largest_rowid_def)
  obtain d' where d': "db ?w = Some d'" "rows d' = ?new" "faults ?w = []"
    using creations [OF assms(1,2,3)] assms(4) l by auto
  have "map id_col ?new = map (\<lambda>i. 1 + int i) [0..<length titles]"
    by (simp add: comp_def)
  then have "sorted (map id_col ?new)"
    using sorted_ids [of 1 "length titles"] by (simp only:)
  then have "sort_key id_col ?new = ?new"
    by (rule sort_key_id_if_sorted)
  then show ?thesis
    using d'
    by (simp add: serve_app_38_response exception_middleware_def router_list bind_io_def
        ret_def list_tasks_ok [where d = d'] del: upt_Suc)
qed

section \<open>Marking a task done\<close>

lemma digits_value_no_slash: "digits_value cs acc = Some n \<Longrightarrow> CHR ''/'' \<notin> set cs"
  by (induction cs arbitrary: acc) (auto split: if_splits)

lemma int_of_str_segment:
  assumes "int_of_str s = Some k"
  shows "s \<noteq> []" and "CHR ''/'' \<notin> set s"
proof -
  show "s \<noteq> []" using assms by auto
  show "CHR ''/'' \<notin> set s"
  proof (cases s)
    case Nil
    then show ?thesis by simp
  next
    case (Cons c cs)
    then show ?thesis
      using assms digits_value_no_slash [of cs 0] digits_value_no_slash [of "c # cs" 0]
      by (auto split: if_splits)
  qed
qed

lemma router_mark_done:
  assumes "int_of_str s = Some k"
  shows "router app_38 (client_patch (task_done_path s)) =
     bind_io (mark_done k) (\<lambda>c. ret \<lparr>status_code = 200, body = c\<rparr>)"
  using assms int_of_str_segment [OF assms]
  by (intro ext) (simp add: router_def resolve_mark_done handle_route_def)

lemma serve_mark_done_found:
  assumes "int_of_str s = Some k" "fits_int64 k" "faults w = []" "db w = Some d"
    and "filter (\<lambda>r. id_col r = k) (rows d) = r # rs"
  shows "fst (serve app_38 (client_patch (task_done_path s)) w) =
           \<lparr>status_code = 200, body = Task_dict (r\<lparr>done_col := 1\<rparr>)\<rparr>"
    and "db (snd (serve app_38 (client_patch (task_done_path s)) w)) =
           Some (d\<lparr>rows := map (\<lambda>r. if id_col r = k then r\<lparr>done_col := 1\<rparr> else r) (rows d)\<rparr>)"
  using assms(2-)
  by (simp_all add: serve_app_38_response serve_app_38_db exception_middleware_def
      router_mark_done [OF assms(1)] bind_io_def ret_def
      mark_done_found [where d = d and r = r and rs = rs])

lemma serve_mark_done_missing:
  assumes "int_of_str s = Some k" "fits_int64 k" "faults w = []" "db w = Some d"
    and "filter (\<lambda>r. id_col r = k) (rows d) = []"
  shows "fst (serve app_38 (client_patch (task_done_path s)) w) =
           \<lparr>status_code = 404, body = Detail ''Task not found''\<rparr>"
    and "db (snd (serve app_38 (client_patch (task_done_path s)) w)) = db w"
  using assms(2-)
  by (simp_all add: serve_app_38_response serve_app_38_db exception_middleware_def
      router_mark_done [OF assms(1)] bind_io_def
      mark_done_missing [where d = d])

lemma serve_mark_done_overflow:
  assumes "int_of_str s = Some k" "\<not> fits_int64 k" "faults w = []"
  shows "fst (serve app_38 (client_patch (task_done_path s)) w) =
           \<lparr>status_code = 500, body = Plain_text ''Internal Server Error''\<rparr>"
  using assms(2-)
  by (simp add: serve_app_38_response exception_middleware_def
      router_mark_done [OF assms(1)] bind_io_def mark_done_overflow)

lemma int_of_str_large: "int_of_str ''9223372036854775808'' = Some 9223372036854775808"
  by simp

lemma int_of_str_1: "int_of_str ''1'' = Some 1" and int_of_str_7: "int_of_str ''7'' = Some 7"
  by simp_all

text \<open>
  Claim C6 says that for every integer \<^verbatim>\<open>task_id\<close> the answer is status 404 with the body
  \<^verbatim>\<open>{detail: Task not found}\<close> if and only if no stored task has that id, and that otherwise
  the task is set done and returned with status 200. The id is a Python integer, which has
  no bound, and the store takes 64-bit integers only. As amended: for every path segment
  that parses as an integer \<^verbatim>\<open>task_id\<close> within the signed 64-bit range, on a store that is
  reachable, the answer is that 404 if and only if no stored task has the id; otherwise
  the answer is status 200 with a stored task of that id, its \<^verbatim>\<open>done\<close> set to 1, and in the
  table \<^verbatim>\<open>done\<close> is 1 on the rows of that id and every other row is as before.
\<close>

theorem mark_done_not_found_iff:
  assumes "int_of_str s = Some task_id" and "fits_int64 task_id"
    and "faults w = []" and "db w = Some d"
  shows "(fst (serve app_38 (client_patch (task_done_path s)) w) =
            \<lparr>status_code = 404, body = Detail ''Task not found''\<rparr>) =
           (task_id \<notin> id_col ` set (rows d)) \<and>
         (task_id \<in> id_col ` set (rows d) \<longrightarrow>
            (\<exists>r. r \<in> set (rows d) \<and> id_col r = task_id \<and>
               fst (serve app_38 (client_patch (task_done_path s)) w) =
                 \<lparr>status_code = 200, body = Task_dict (r\<lparr>done_col := 1\<rparr>)\<rparr>) \<and>
            db (snd (serve app_38 (client_patch (task_done_path s)) w)) =
              Some (d\<lparr>rows := map (\<lambda>r. if id_col r = task_id then r\<lparr>done_col := 1\<rparr> else r)
                                 (rows d)\<rparr>))"
proof (cases "filter (\<lambda>r. id_col r = task_id) (rows d)")
  case Nil
  then have "task_id \<notin> id_col ` set (rows d)"
    by (auto simp: filter_empty_conv)
  then show ?thesis
    using serve_mark_done_missing [OF assms Nil] by simp
next
  case (Cons r rs)
  then have "r \<in> set (filter (\<lambda>r. id_col r = task_id) (rows d))" by simp
  then have r: "r \<in> set (rows d)" "id_col r = task_id" by simp_all
  then have "task_id \<in> id_col ` set (rows d)" by auto
  then show ?thesis
    using serve_mark_done_found [OF assms Cons] r by auto
qed

theorem mark_done_not_found_iff_witness:
  "fst (serve app_38 (client_patch (task_done_path ''7'')) world_two_tasks) =
     \<lparr>status_code = 404, body = Detail ''Task not found''\<rparr> \<and>
   fst (serve app_38 (client_patch (task_done_path ''1'')) world_two_tasks) \<noteq>
     \<lparr>status_code = 404, body = Detail ''Task not found''\<rparr> \<and>
   db (snd (serve app_38 (client_patch (task_done_path ''1'')) world_two_tasks)) =
     Some (two_tasks\<lparr>rows := map (\<lambda>r. if id_col r = 1 then r\<lparr>done_col := 1\<rparr> else r)
                                 (rows two_tasks)\<rparr>)"
proof -
  have c: "faults world_two_tasks = []" "db world_two_tasks = Some two_tasks"
    by (simp_all add: world_two_tasks_def new_world_def)
  have f: "fits_int64 1" "fits_int64 7"
    by (simp_all add: fits_int64_def MAX_ROWID_def)
  have m: "7 \<notin> id_col ` set (rows two_tasks)" "1 \<in> id_col ` set (rows two_tasks)"
    by (simp_all add: two_tasks_def)
  show ?thesis
    using mark_done_not_found_iff [OF int_of_str_7 f(2) c]
      mark_done_not_found_iff [OF int_of_str_1 f(1) c] m
    by simp
qed

text \<open>
  The claim as stated fails at the id \<open>2\<^sup>6\<^sup>3\<close>: no stored task has it, binding it raises
  \<^verbatim>\<open>OverflowError\<close>, and the answer is status 500.
\<close>

theorem mark_done_large_id_server_error:
  "9223372036854775808 \<notin> id_col ` set (rows two_tasks) \<and>
   fst (mark_done 9223372036854775808 world_two_tasks) = Inl OverflowError \<and>
   fst (serve app_38 (client_patch (task_done_path ''9223372036854775808'')) world_two_tasks) =
     \<lparr>status_code = 500, body = Plain_text ''Internal Server Error''\<rparr>"
proof -
  have f: "faults world_two_tasks = []"
    by (simp add: world_two_tasks_def new_world_def)
  have n: "\<not> fits_int64 9223372036854775808"
    by (simp add: fits_int64_def MAX_ROWID_def)
  show ?thesis
    using serve_mark_done_overflow [OF int_of_str_large n f] mark_done_overflow [OF f n]
    by (simp add: two_tasks_def)
qed

section \<open>Marking a task done twice\<close>

lemma run_sql_update_success:
  assumes "run_sql ts (UPDATE_tasks_SET_done_1_WHERE_id k) v = Inr (cur, v')"
  shows "\<exists>d0. v = Some d0 \<and>
           v' = Some (d0\<lparr>rows := map (\<lambda>r. if id_col r = k then r\<lparr>done_col := 1\<rparr> else r) (rows d0)\<rparr>) \<and>
           rowcount cur = int (length (filter (\<lambda>r. id_col r = k) (rows d0)))"
  using assms by (cases v) (auto simp: empty_cursor_def)

lemma execute_update_success:
  assumes "fst (execute c (UPDATE_tasks_SET_done_1_WHERE_id k) w) = Inr cur"
  shows "fits_int64 k \<and>
         (\<exists>d0. view w c = Some d0 \<and>
            view (snd (execute c (UPDATE_tasks_SET_done_1_WHERE_id k) w)) c =
              Some (d0\<lparr>rows := map (\<lambda>r. if id_col r = k then r\<lparr>done_col := 1\<rparr> else r) (rows d0)\<rparr>) \<and>
            rowcount cur = int (length (filter (\<lambda>r. id_col r = k) (rows d0))))"
  using execute_success [OF assms] run_sql_update_success by fastforce

lemma mark_done_success:
  "fst (mark_done k w) = Inr c \<longrightarrow>
     fits_int64 k \<and>
     (\<exists>d0. db w = Some d0 \<and> filter (\<lambda>r. id_col r = k) (rows d0) \<noteq> [] \<and>
        db (snd (mark_done k w)) =
          Some (d0\<lparr>rows := map (\<lambda>r. if id_col r = k then r\<lparr>done_col := 1\<rparr> else r) (rows d0)\<rparr>))"
  apply (simp add: mark_done_def bind_io_proj case_prod_beta ret_def raise_def dict_def Let_def
      commit_db split: sum.split option.split)
  apply (auto dest!: execute_update_success simp: connect_view)
  done

lemma mark_done_http:
  "fst (mark_done k w) = Inl (HTTPException code detail) \<longrightarrow> code = 404"
  by (auto simp: mark_done_def bind_io_proj case_prod_beta ret_def raise_def dict_def Let_def
      split: sum.split option.split
      dest: connect_error execute_error commit_error)

lemma mark_twice:
  "map (\<lambda>r. if id_col r = k then r\<lparr>done_col := 1\<rparr> else r)
     (map (\<lambda>r. if id_col r = k then r\<lparr>done_col := 1\<rparr> else r) xs) =
   map (\<lambda>r. if id_col r = k then r\<lparr>done_col := 1\<rparr> else r) xs"
  by (induction xs) auto

lemma serve_mark_done_ok:
  assumes "int_of_str s = Some k"
    and "status_code (fst (serve app_38 (client_patch (task_done_path s)) w)) = 200"
  shows "\<exists>c. fst (mark_done k (snd (perf_counter w))) = Inr c"
proof (cases "fst (mark_done k (snd (perf_counter w)))")
  case (Inr c)
  then show ?thesis by simp
next
  case (Inl e)
  have "status_code (fst (serve app_38 (client_patch (task_done_path s)) w)) \<noteq> 200"
  proof (cases e)
    case (HTTPException code detail)
    then have "code = 404"
      using Inl mark_done_http [of k "snd (perf_counter w)" code detail] by simp
    then show ?thesis
      using Inl HTTPException
      by (simp add: serve_app_38_response exception_middleware_def
          router_mark_done [OF assms(1)] bind_io_proj case_prod_beta)
  qed (use Inl in \<open>simp_all add: serve_app_38_response exception_middleware_def
          router_mark_done [OF assms(1)] bind_io_proj case_prod_beta\<close>)
  then show ?thesis using assms(2) by simp
qed

lemma serve_mark_done_db:
  assumes "int_of_str s = Some k"
  shows "db (snd (serve app_38 (client_patch (task_done_path s)) w)) =
         db (snd (mark_done k (snd (perf_counter w))))"
  by (simp add: serve_app_38_db exception_middleware_db router_mark_done [OF assms]
      bind_io_proj ret_def split: sum.split)

lemma serve_mark_done_faults:
  assumes "int_of_str s = Some k" "fits_int64 k" "faults w = []" "db w = Some d"
    and "filter (\<lambda>r. id_col r = k) (rows d) = r # rs"
  shows "faults (snd (serve app_38 (client_patch (task_done_path s)) w)) = []"
  using assms(2-)
  by (simp add: serve_app_38_faults exception_middleware_def
      router_mark_done [OF assms(1)] bind_io_def ret_def
      mark_done_found [where d = d and r = r and rs = rs])

text \<open>
  Claim C7: marking a task done is idempotent in effect. Whenever a first request to mark
  the task \<^verbatim>\<open>task_id\<close> done was answered with status 200, a second one, on a store that
  is reachable, is answered with status 200 again, the task it returns has that id and
  \<^verbatim>\<open>done\<close> 1, and the store after the second request equals the store after the first.
\<close>

theorem mark_done_idempotent:
  assumes "int_of_str s = Some task_id"
    and "serve app_38 (client_patch (task_done_path s)) w = (r1, w1)"
    and "status_code r1 = 200"
    and "faults w1 = []"
  shows "\<exists>t. fst (serve app_38 (client_patch (task_done_path s)) w1) =
               \<lparr>status_code = 200, body = Task_dict t\<rparr> \<and>
             id_col t = task_id \<and> done_col t = 1 \<and>
             db (snd (serve app_38 (client_patch (task_done_path s)) w1)) = db w1"
proof -
  let ?mark = "\<lambda>r. if id_col r = task_id then r\<lparr>done_col := 1\<rparr> else r"
  let ?w0 = "snd (perf_counter w)"
  have "status_code (fst (serve app_38 (client_patch (task_done_path s)) w)) = 200"
    using assms(2,3) by simp
  then obtain c where "fst (mark_done task_id ?w0) = Inr c"
    using serve_mark_done_ok [OF assms(1)] by blast
  then obtain d0 where fits: "fits_int64 task_id"
    and found: "filter (\<lambda>r. id_col r = task_id) (rows d0) \<noteq> []"
    and after: "db (snd (mark_done task_id ?w0)) = Some (d0\<lparr>rows := map ?mark (rows d0)\<rparr>)"
    using mark_done_success [of task_id ?w0 c] by blast
  let ?d1 = "d0\<lparr>rows := map ?mark (rows d0)\<rparr>"
  have db1: "db w1 = Some ?d1"
    using serve_mark_done_db [OF assms(1), of w] assms(2) after by simp
  obtain r rs where rows: "filter (\<lambda>r. id_col r = task_id) (rows d0) = r # rs"
    using found by (cases "filter (\<lambda>r. id_col r = task_id) (rows d0)") auto
  then have "r \<in> set (filter (\<lambda>r. id_col r = task_id) (rows d0))" by simp
  then have idr: "id_col r = task_id" by simp
  have rows1: "filter (\<lambda>r. id_col r = task_id) (rows ?d1) =
      r\<lparr>done_col := 1\<rparr> # map (\<lambda>r. r\<lparr>done_col := 1\<rparr>) rs"
    using rows by simp
  have same: "?d1\<lparr>rows := map ?mark (rows ?d1)\<rparr> = ?d1"
    by (simp add: mark_twice)
  show ?thesis
    using serve_mark_done_found [OF assms(1) fits assms(4) db1 rows1] idr same
    by (intro exI [of _ "r\<lparr>done_col := 1\<rparr>"]) (simp add: db1)
qed

theorem mark_done_idempotent_witness:
  "\<exists>t. fst (serve app_38 (client_patch (task_done_path ''2''))
                (snd (serve app_38 (client_patch (task_done_path ''2'')) world_two_tasks))) =
          \<lparr>status_code = 200, body = Task_dict t\<rparr> \<and>
        id_col t = 2 \<and> done_col t = 1 \<and>
        db (snd (serve app_38 (client_patch (task_done_path ''2''))
                  (snd (serve app_38 (client_patch (task_done_path ''2'')) world_two_tasks)))) =
        db (snd (serve app_38 (client_patch (task_done_path ''2'')) world_two_tasks))"
proof -
  have i: "int_of_str ''2'' = Some 2" by simp
  have c: "faults world_two_tasks = []" "db world_two_tasks = Some two_tasks"
    by (simp_all add: world_two_tasks_def new_world_def)
  have f: "fits_int64 2"
    by (simp add: fits_int64_def MAX_ROWID_def)
  have r: "filter (\<lambda>r. id_col r = 2) (rows two_tasks) =
      [\<lparr>id_col = 2, title_col = ''send report'', done_col = 0,
        created_at_col = ''2024-01-01 00:00:00''\<rparr>]"
    by (simp add: two_tasks_def)
  have a: "serve app_38 (client_patch (task_done_path ''2'')) world_two_tasks =
      (fst (serve app_38 (client_patch (task_done_path ''2'')) world_two_tasks),
       snd (serve app_38 (client_patch (task_done_path ''2'')) world_two_tasks))"
    by simp
  have s: "status_code (fst (serve app_38 (client_patch (task_done_path ''2'')) world_two_tasks)) =
      200"
    using serve_mark_done_found(1) [OF i f c r] by simp
  have n: "faults (snd (serve app_38 (client_patch (task_done_path ''2'')) world_two_tasks)) = []"
    by (rule serve_mark_done_faults [OF i f c r])
  show ?thesis
    using mark_done_idempotent [OF i a s n] .
qed

end
